theory Spec2Isabelle
  imports Main
begin

section \<open>The platform: errors, strings, regular expressions\<close>

text \<open>
  A thrown JavaScript error is a value. \<open>Error m\<close> is \<open>new Error(m)\<close>, \<open>NowError c m meta\<close> is
  \<open>new NowError({code, message, meta})\<close>, and \<open>SystemError c m\<close> is an error of the
  runtime that carries a \<open>code\<close> (\<open>ENOENT\<close> from the file system).
\<close>

datatype js_error =
    Error string
  | NowError string string string
  | SystemError string string

fun err_message :: "js_error \<Rightarrow> string" where
  "err_message (Error m) = m"
| "err_message (NowError c m meta) = m"
| "err_message (SystemError c m) = m"

fun err_code :: "js_error \<Rightarrow> string option" where
  "err_code (Error m) = None"
| "err_code (NowError c m meta) = Some c"
| "err_code (SystemError c m) = Some c"

text \<open>\<open>s.replace(/^\//, '')\<close>: one leading slash is removed.\<close>

fun strip_leading_slash :: "string \<Rightarrow> string" where
  "strip_leading_slash [] = []"
| "strip_leading_slash (c # cs) = (if c = CHR ''/'' then cs else c # cs)"

text \<open>\<open>s.replace(/\/$/, '')\<close>: one trailing slash is removed (\<open>$\<close> without the \<open>m\<close> flag is
  the end of the input).\<close>

definition strip_trailing_slash :: "string \<Rightarrow> string" where
  "strip_trailing_slash s = (if s \<noteq> [] \<and> last s = CHR ''/'' then butlast s else s)"

text \<open>
  A pattern built at run time (\<open>new RegExp(p)\<close>) is run by the platform's engine, which is a
  parameter of the model: \<open>exec p s\<close> is the outcome of compiling \<open>p\<close> and searching \<open>s\<close> for
  its first match (\<open>RxMatch i n groups\<close>: the match starts at index \<open>i\<close>, is \<open>n\<close> characters
  long and captured \<open>groups\<close>), and \<open>substitute\<close> expands a replacement template (\<open>$1\<close>,
  \<open>$&\<close>, ...) for a match.
\<close>

datatype rx_result = RxSyntaxError string | RxNoMatch | RxMatch nat nat "string list"

record regexp =
  exec :: "string \<Rightarrow> string \<Rightarrow> rx_result"
  substitute :: "string \<Rightarrow> string \<Rightarrow> nat \<Rightarrow> nat \<Rightarrow> string list \<Rightarrow> string"

text \<open>\<open>s.replace(new RegExp(p), r)\<close>: the first match is replaced, a string without a match
  is returned as it is, and a pattern that does not compile throws.\<close>

definition js_replace :: "regexp \<Rightarrow> string \<Rightarrow> string \<Rightarrow> string \<Rightarrow> js_error + string" where
  "js_replace rx p r s =
     (case exec rx p s of
        RxSyntaxError m \<Rightarrow> Inl (Error m)
      | RxNoMatch \<Rightarrow> Inr s
      | RxMatch i n groups \<Rightarrow> Inr (take i s @ substitute rx r s i n groups @ drop (i + n) s))"

text \<open>
  The fixed pattern \<open>/\/?index(\.\w+)?$/\<close> of \<open>resolveDest\<close>. \<open>is_word_char\<close> is \<open>\w\<close>
  (without the \<open>u\<close> and \<open>i\<close> flags: the ASCII letters, the digits and the underscore);
  \<open>index_tail s\<close> says that \<open>index(\.\w+)?$\<close> matches all of \<open>s\<close>, and \<open>index_here s\<close> that
  the whole pattern does. A match always runs to the end of the input, so replacing the first
  (leftmost) match by the empty string cuts the input at the first position where the pattern
  matches: that is \<open>strip_index\<close>, \<open>name.replace(/\/?index(\.\w+)?$/, '')\<close>.
\<close>

definition is_word_char :: "char \<Rightarrow> bool" where
  "is_word_char c =
     (let n = (of_char c :: nat)
      in (48 \<le> n \<and> n \<le> 57) \<or> (65 \<le> n \<and> n \<le> 90) \<or> n = 95 \<or> (97 \<le> n \<and> n \<le> 122))"

definition index_tail :: "string \<Rightarrow> bool" where
  "index_tail s =
     (take 5 s = ''index'' \<and>
      (case drop 5 s of
         [] \<Rightarrow> True
       | c # ws \<Rightarrow> c = CHR ''.'' \<and> ws \<noteq> [] \<and> list_all is_word_char ws))"

definition index_here :: "string \<Rightarrow> bool" where
  "index_here s = (index_tail s \<or> (case s of [] \<Rightarrow> False | c # r \<Rightarrow> c = CHR ''/'' \<and> index_tail r))"

fun strip_index :: "string \<Rightarrow> string" where
  "strip_index [] = []"
| "strip_index (c # cs) = (if index_here (c # cs) then [] else c # strip_index cs)"

subsection \<open>Buffers and base64\<close>

text \<open>
  A \<open>Buffer\<close> is a list of bytes; a byte is a \<open>char\<close> (eight bits), read as a number by
  \<open>of_char\<close> and written by \<open>char_of\<close>. \<open>base64_encode\<close> is \<open>buf.toString('base64')\<close>: the
  standard alphabet with \<open>=\<close> padding. \<open>base64_decode\<close> is \<open>Buffer.from(s, 'base64')\<close>, which
  never throws: it also accepts the URL-safe \<open>-\<close> and \<open>_\<close>, and in this model it passes over
  the characters outside both alphabets (white space) and ends at the first padding
  character. What the encoder writes has no such character before its padding.
\<close>

type_synonym bytes = "char list"

definition base64_alphabet :: string where
  "base64_alphabet = ''ABCDEFGHIJKLMNOPQRSTUVWXYZabcdefghijklmnopqrstuvwxyz0123456789+/''"

definition base64_char :: "nat \<Rightarrow> char" where
  "base64_char n = base64_alphabet ! n"

definition unbase64 :: "char \<Rightarrow> nat option" where
  "unbase64 c = map_of (zip (base64_alphabet @ ''-_'') ([0..<64] @ [62, 63])) c"

fun base64_encode :: "bytes \<Rightarrow> string" where
  "base64_encode (a # b # c # rest) =
     (let x = (of_char a :: nat); y = (of_char b :: nat); z = (of_char c :: nat)
      in [base64_char (x div 4), base64_char ((x mod 4) * 16 + y div 16),
          base64_char ((y mod 16) * 4 + z div 64), base64_char (z mod 64)]) @ base64_encode rest"
| "base64_encode [a, b] =
     (let x = (of_char a :: nat); y = (of_char b :: nat)
      in [base64_char (x div 4), base64_char ((x mod 4) * 16 + y div 16),
          base64_char ((y mod 16) * 4), CHR ''=''])"
| "base64_encode [a] =
     (let x = (of_char a :: nat)
      in [base64_char (x div 4), base64_char ((x mod 4) * 16), CHR ''='', CHR ''=''])"
| "base64_encode [] = []"

definition base64_sextets :: "string \<Rightarrow> nat list" where
  "base64_sextets s = List.map_filter unbase64 (takeWhile (\<lambda>c. c \<noteq> CHR ''='') s)"

fun base64_bytes :: "nat list \<Rightarrow> bytes" where
  "base64_bytes (p # q # r # s # rest) =
     [char_of (p * 4 + q div 16), char_of ((q mod 16) * 16 + r div 4), char_of ((r mod 4) * 64 + s)]
     @ base64_bytes rest"
| "base64_bytes [p, q, r] = [char_of (p * 4 + q div 16), char_of ((q mod 16) * 16 + r div 4)]"
| "base64_bytes [p, q] = [char_of (p * 4 + q div 16)]"
| "base64_bytes [p] = []"
| "base64_bytes [] = []"

definition base64_decode :: "string \<Rightarrow> bytes" where
  "base64_decode s = base64_bytes (base64_sextets s)"

section \<open>The data of the two servers\<close>

text \<open>
  The repository holds two versions of the development server: the first in
  \<open>src/commands/dev/dev-server.ts\<close>, the second in \<open>src/commands/dev/lib/dev-server.ts\<close>.
  The records follow their interfaces; an optional field is an \<open>option\<close>. Where two interfaces
  share a field name, the fields of the later record carry a prefix: \<open>route_src\<close> is
  \<open>RouteConfig.src\<close>, \<open>ip_body\<close> is \<open>InvokePayload.body\<close>, \<open>ir_body\<close> is \<open>InvokeResult.body\<close>,
  \<open>rr_dest\<close> is the \<open>dest\<close> of a routing result, \<open>req_headers\<close> is \<open>req.headers\<close>.
\<close>

type_synonym header_map = "(string \<times> string) list"

record BuildConfig =
  src :: string
  use :: string
  config :: "string option"

record RouteConfig =
  route_src :: string
  route_dest :: "string option"
  route_methods :: "string list option"
  route_headers :: "header_map option"
  route_status :: "nat option"

text \<open>\<open>config.build\<close> and the configuration file \<open>now.json\<close>.\<close>

record build_options =
  build_env :: "(string \<times> string) list option"

record NowConfig =
  version :: int
  builds :: "BuildConfig list option"
  routes :: "RouteConfig list option"
  env :: "(string \<times> string) list option"
  build :: "build_options option"

text \<open>
  A build output has the fields of the interface \<open>BuilderOutput\<close> of the first server and the
  two more that the second server reads, \<open>fsPath\<close> and \<open>fn\<close> (a handle of the function that
  \<open>invoke\<close> below calls). \<open>BuilderOutputs\<close>, an object keyed by output path, is the list of
  its own properties in the order of \<open>Object.keys\<close>: the keys that are array indices (\<open>0\<close>,
  \<open>1\<close>, ..., written without a sign or a leading zero and below \<open>2^32 - 1\<close>) come first, in
  ascending order, and the other keys follow in the order of their creation. Every value is
  an object, so it is truthy.
\<close>

record BuilderOutput =
  type :: "string option"
  zipBuffer :: "bytes option"
  handler :: "string option"
  runtime :: "string option"
  environment :: "string option"
  fsPath :: "string option"
  fn :: "nat option"

type_synonym BuilderOutputs = "(string \<times> BuilderOutput) list"

text \<open>The array index that a key denotes, if it is one.\<close>

definition is_digit :: "char \<Rightarrow> bool" where
  "is_digit c = (48 \<le> (of_char c :: nat) \<and> (of_char c :: nat) \<le> 57)"

definition digits_value :: "string \<Rightarrow> nat" where
  "digits_value k = foldl (\<lambda>n c. 10 * n + (of_char c - 48)) 0 k"

definition array_index :: "string \<Rightarrow> nat option" where
  "array_index k =
     (if k \<noteq> [] \<and> list_all is_digit k \<and> (k = ''0'' \<or> hd k \<noteq> CHR ''0'')
         \<and> digits_value k < 4294967295
      then Some (digits_value k) else None)"

text \<open>
  The definition of the own property \<open>k\<close> with the value \<open>v\<close>: a key that the object has
  keeps its place and takes the value; a new array index goes before the first greater index
  or, without one, before the first key that is no index; any other new key goes to the end.
\<close>

fun put :: "string \<Rightarrow> 'v \<Rightarrow> (string \<times> 'v) list \<Rightarrow> (string \<times> 'v) list" where
  "put k v [] = [(k, v)]"
| "put k v ((k', w) # rest) =
     (if k' = k then (k, v) # rest
      else case array_index k of
             None \<Rightarrow> (k', w) # put k v rest
           | Some i \<Rightarrow>
               (case array_index k' of
                  None \<Rightarrow> (k, v) # (k', w) # rest
                | Some j \<Rightarrow> if i < j then (k, v) # (k', w) # rest else (k', w) # put k v rest))"

text \<open>\<open>{...results, ...output}\<close>: the properties of \<open>results\<close>, then those of \<open>output\<close> in
  their order, each defined on the new object.\<close>

definition spread :: "BuilderOutputs \<Rightarrow> BuilderOutputs \<Rightarrow> BuilderOutputs" where
  "spread results output = fold (\<lambda>(k, v). put k v) output results"

text \<open>The object \<open>{}\<close>, read as a build output.\<close>

definition empty_output :: BuilderOutput where
  "empty_output = \<lparr> type = None, zipBuffer = None, handler = None, runtime = None,
                    environment = None, fsPath = None, fn = None \<rparr>"

text \<open>
  \<open>assets[k]\<close>, the read of the property \<open>k\<close>. The objects are plain ones (\<open>{}\<close> and the
  results of a spread), so a name that is no own key is looked up in \<open>Object.prototype\<close>:
  \<open>inherited\<close> lists the names found there. What is read then is a function (for
  \<open>__proto__\<close> the prototype itself): it is truthy, and none of the fields that the servers
  read of a build output is defined on it, so it reads like \<open>{}\<close>.
\<close>

definition inherited :: "string list" where
  "inherited =
     [''constructor'', ''__defineGetter__'', ''__defineSetter__'', ''hasOwnProperty'',
      ''__lookupGetter__'', ''__lookupSetter__'', ''isPrototypeOf'', ''propertyIsEnumerable'',
      ''toString'', ''valueOf'', ''__proto__'', ''toLocaleString'']"

definition property :: "BuilderOutputs \<Rightarrow> string \<Rightarrow> BuilderOutput option" where
  "property obj k =
     (case map_of obj k of
        Some a \<Rightarrow> Some a
      | None \<Rightarrow> if k \<in> set inherited then Some empty_output else None)"

datatype DevServerStatus = busy | idle | error

record DevServerState =
  cwd :: string
  status :: DevServerStatus
  statusMessage :: string

definition setStatusIdle :: "'a DevServerState_scheme \<Rightarrow> 'a DevServerState_scheme" where
  "setStatusIdle s = s\<lparr> status := idle, statusMessage := [] \<rparr>"

definition setStatusBusy :: "string \<Rightarrow> 'a DevServerState_scheme \<Rightarrow> 'a DevServerState_scheme" where
  "setStatusBusy msg s = s\<lparr> status := busy, statusMessage := msg \<rparr>"

definition setStatusError :: "string \<Rightarrow> 'a DevServerState_scheme \<Rightarrow> 'a DevServerState_scheme" where
  "setStatusError msg s = s\<lparr> status := error, statusMessage := msg \<rparr>"

text \<open>The request, as far as the servers read it; \<open>req_body\<close> is what \<open>rawBody(req)\<close> reads.\<close>

record request =
  url :: "string option"
  req_method :: "string option"
  req_headers :: header_map
  req_body :: bytes

text \<open>
  The response. \<open>ended\<close> says how it was finished, if it was: by \<open>res.end(chunk)\<close>, or by
  handing it to the reverse proxy, the static file handler or a file stream, which end it
  later: \<open>res.finished\<close> holds once \<open>res.end\<close> was called.
  \<open>res.setHeader\<close> replaces a header of the same name (names compare without case); header
  names and values are taken to be legal.
\<close>

datatype body = NoBody | Text string | Bytes bytes

datatype finish =
    End body
  | ProxyPass string
  | ServeStaticFile "string option" string
  | Stream string

record response =
  statusCode :: nat
  headers :: header_map
  ended :: "finish option"

definition new_response :: response where
  "new_response = \<lparr> statusCode = 200, headers = [], ended = None \<rparr>"

definition finished :: "response \<Rightarrow> bool" where
  "finished res = (case ended res of Some (End chunk) \<Rightarrow> True | other \<Rightarrow> False)"

definition lower :: "char \<Rightarrow> char" where
  "lower c = (let n = (of_char c :: nat) in if 65 \<le> n \<and> n \<le> 90 then char_of (n + 32) else c)"

fun set_header :: "string \<Rightarrow> string \<Rightarrow> header_map \<Rightarrow> header_map" where
  "set_header name v [] = [(name, v)]"
| "set_header name v ((n, w) # hs) =
     (if map lower n = map lower name then (name, v) # hs else (n, w) # set_header name v hs)"

definition setHeader :: "string \<Rightarrow> string \<Rightarrow> response \<Rightarrow> response" where
  "setHeader name v res = res\<lparr> headers := set_header name v (headers res) \<rparr>"

definition setHeaders :: "header_map \<Rightarrow> response \<Rightarrow> response" where
  "setHeaders hs res = fold (\<lambda>(name, v). setHeader name v) hs res"

definition res_end :: "body \<Rightarrow> response \<Rightarrow> response" where
  "res_end chunk res = res\<lparr> ended := Some (End chunk) \<rparr>"

text \<open>A number as a header value: its decimal digits.\<close>

fun decimal :: "nat \<Rightarrow> string" where
  "decimal n = (if n < 10 then [char_of (48 + n)] else decimal (n div 10) @ [char_of (48 + n mod 10)])"

declare decimal.simps [simp del]

text \<open>\<open>if (!res.getHeader(name)) res.setHeader(name, v)\<close>.\<close>

definition default_header :: "string \<Rightarrow> string \<Rightarrow> response \<Rightarrow> response" where
  "default_header name v res =
     (if list_ex (\<lambda>(n, w). map lower n = map lower name \<and> w \<noteq> []) (headers res) then res
      else setHeader name v res)"

text \<open>
  \<open>send(res, code, obj)\<close> of \<open>micro\<close>: it sets the status code; without a body it ends the
  response; for a string it sets \<open>Content-Length\<close> to the length in bytes and ends the response
  with it; for a buffer it also sets \<open>Content-Type\<close> to \<open>application/octet-stream\<close> unless the
  header is set. \<open>send_stream\<close> is \<open>send\<close> for a stream of the file \<open>dest\<close>: the content type
  as for a buffer, and the stream is piped into the response, which ends it later.
\<close>

fun send :: "nat \<Rightarrow> body \<Rightarrow> response \<Rightarrow> response" where
  "send code NoBody res = res_end NoBody (res\<lparr> statusCode := code \<rparr>)"
| "send code (Text str) res =
     res_end (Text str) (setHeader ''Content-Length'' (decimal (length str)) (res\<lparr> statusCode := code \<rparr>))"
| "send code (Bytes buf) res =
     res_end (Bytes buf)
       (setHeader ''Content-Length'' (decimal (length buf))
          (default_header ''Content-Type'' ''application/octet-stream'' (res\<lparr> statusCode := code \<rparr>)))"

definition send_stream :: "nat \<Rightarrow> string \<Rightarrow> response \<Rightarrow> response" where
  "send_stream code dest res =
     (default_header ''Content-Type'' ''application/octet-stream'' (res\<lparr> statusCode := code \<rparr>))
       \<lparr> ended := Some (Stream dest) \<rparr>"

text \<open>The payload and the result of a function invocation.\<close>

record InvokePayload =
  ip_method :: "string option"
  ip_path :: "string option"
  ip_headers :: header_map
  ip_encoding :: string
  ip_body :: string

record InvokeResult =
  ir_statusCode :: nat
  ir_headers :: header_map
  ir_body :: body
  ir_encoding :: "string option"

text \<open>
  What a server asks of its collaborators is recorded as a trace of events, so that a claim
  can say which of them a request reaches: an installation and a build of the builder cache,
  the creation and the invocation of a function, a lookup in the published build outputs.
\<close>

datatype event =
    Install string string
  | Build string string
  | CreateFunction BuilderOutput
  | Invoke nat InvokePayload
  | Resolve string

section \<open>The first server (\<open>src/commands/dev/dev-server.ts\<close>)\<close>

text \<open>
  The collaborators are parameters. \<open>builder_cache\<close> is the module \<open>./builder-cache\<close>:
  \<open>install dir pkg\<close> is \<open>None\<close> when the installation succeeds, and \<open>get dir use\<close> is the
  builder, whose \<open>build\<close> maps its arguments to build outputs or throws. \<open>platform\<close> holds the
  file system, \<open>glob\<close> (the matched files by name, with their \<open>fsPath\<close>), \<open>path\<close>, \<open>chalk\<close>,
  the text of \<open>err.stack\<close>, \<open>readLocalConfig\<close> and the function runtime \<open>lambda-dev\<close>.
\<close>

record build_args =
  files :: "(string \<times> string) list"
  entrypoint :: string
  workPath :: string
  build_config :: "string option"

record builder_cache =
  install :: "string \<Rightarrow> string \<Rightarrow> js_error option"
  get :: "string \<Rightarrow> string \<Rightarrow> js_error + (build_args \<Rightarrow> js_error + BuilderOutputs)"

record platform =
  glob :: "string \<Rightarrow> string \<Rightarrow> js_error + (string \<times> string) list"
  relative :: "string \<Rightarrow> string \<Rightarrow> string"
  join :: "string \<Rightarrow> string \<Rightarrow> string"
  bold :: "string \<Rightarrow> string"
  stack :: "js_error \<Rightarrow> string"
  lstat_isFile :: "string \<Rightarrow> js_error + bool"
  readLocalConfig :: "string \<Rightarrow> js_error + NowConfig option"
  createFunction :: "BuilderOutput \<Rightarrow> js_error + nat"
  call :: "nat \<Rightarrow> InvokePayload \<Rightarrow> js_error option"
  regexps :: regexp

record DevServer_v1 = DevServerState +
  builderDirectory :: string

subsection \<open>\<open>installBuilders\<close>\<close>

text \<open>The constant \<open>builders\<close> of \<open>installBuilders\<close>:
  \<open>buildsConfig.map(build => build.use).filter(pkg => pkg !== '@now/static').concat('@now/build-utils')\<close>.\<close>

definition builders :: "BuildConfig list \<Rightarrow> string list" where
  "builders buildsConfig =
     filter (\<lambda>pkg. pkg \<noteq> ''@now/static'') (map use buildsConfig) @ [''@now/build-utils'']"

text \<open>The loop \<open>for (const builder of builders) await builderCache.install(dir, builder)\<close>:
  a rejected installation ends it.\<close>

fun install_each :: "builder_cache \<Rightarrow> string \<Rightarrow> string list \<Rightarrow> js_error option \<times> event list" where
  "install_each bc dir [] = (None, [])"
| "install_each bc dir (b # bs) =
     (case install bc dir b of
        Some e \<Rightarrow> (Some e, [Install dir b])
      | None \<Rightarrow> (case install_each bc dir bs of (r, evs) \<Rightarrow> (r, Install dir b # evs)))"

definition installBuilders :: "builder_cache \<Rightarrow> string \<Rightarrow> BuildConfig list \<Rightarrow> js_error option \<times> event list" where
  "installBuilders bc dir buildsConfig = install_each bc dir (builders buildsConfig)"

subsection \<open>\<open>buildLambdas\<close>\<close>

text \<open>The inner loop \<open>for (const entry of entries)\<close>: each entry is built and its output is
  spread over the results; a build that throws ends the loop.\<close>

fun build_entries ::
  "platform \<Rightarrow> (build_args \<Rightarrow> js_error + BuilderOutputs) \<Rightarrow> string \<Rightarrow> (string \<times> string) list \<Rightarrow>
   BuildConfig \<Rightarrow> string list \<Rightarrow> BuilderOutputs \<Rightarrow> (js_error + BuilderOutputs) \<times> event list" where
  "build_entries pf builder dir fs b [] results = (Inr results, [])"
| "build_entries pf builder dir fs b (entry # entries) results =
     (let args = \<lparr> files = fs, entrypoint = relative pf dir entry, workPath = dir,
                   build_config = config b \<rparr>
      in case builder args of
           Inl e \<Rightarrow> (Inl e, [Build (use b) (entrypoint args)])
         | Inr output \<Rightarrow>
             (case build_entries pf builder dir fs b entries (spread results output) of
                (r, evs) \<Rightarrow> (r, Build (use b) (entrypoint args) # evs)))"

text \<open>The body of the \<open>try\<close> for one build rule: the glob of its \<open>src\<close>, the builder of its
  \<open>use\<close>, the loop over the entries.\<close>

definition build_rule ::
  "platform \<Rightarrow> builder_cache \<Rightarrow> string \<Rightarrow> string \<Rightarrow> (string \<times> string) list \<Rightarrow> BuildConfig \<Rightarrow>
   BuilderOutputs \<Rightarrow> (js_error + BuilderOutputs) \<times> event list" where
  "build_rule pf bc bdir dir fs b results =
     (case glob pf (src b) dir of
        Inl e \<Rightarrow> (Inl e, [])
      | Inr found \<Rightarrow>
          (case get bc bdir (use b) of
             Inl e \<Rightarrow> (Inl e, [])
           | Inr builder \<Rightarrow> build_entries pf builder dir fs b (map snd found) results))"

text \<open>The error of the \<open>catch\<close>.\<close>

definition builder_failure :: "platform \<Rightarrow> BuildConfig \<Rightarrow> js_error \<Rightarrow> js_error" where
  "builder_failure pf b err =
     NowError ''NOW_BUILDER_FAILURE'' (''Failed building '' @ bold pf (src b) @ '' with '' @ use b)
       (stack pf err)"

text \<open>The outer loop \<open>for (const build of buildsConfig)\<close> with its \<open>try\<close> and \<open>catch\<close>.\<close>

fun build_rules ::
  "platform \<Rightarrow> builder_cache \<Rightarrow> string \<Rightarrow> string \<Rightarrow> (string \<times> string) list \<Rightarrow> BuildConfig list \<Rightarrow>
   BuilderOutputs \<Rightarrow> (js_error + BuilderOutputs) \<times> event list" where
  "build_rules pf bc bdir dir fs [] results = (Inr results, [])"
| "build_rules pf bc bdir dir fs (b # rest) results =
     (case build_rule pf bc bdir dir fs b results of
        (Inl err, evs) \<Rightarrow> (Inl (builder_failure pf b err), evs)
      | (Inr results', evs) \<Rightarrow>
          (case build_rules pf bc bdir dir fs rest results' of (r, evs') \<Rightarrow> (r, evs @ evs')))"

definition buildLambdas ::
  "platform \<Rightarrow> builder_cache \<Rightarrow> string \<Rightarrow> string \<Rightarrow> BuildConfig list \<Rightarrow>
   (js_error + BuilderOutputs) \<times> event list" where
  "buildLambdas pf bc bdir dir buildsConfig =
     (case glob pf ''**'' dir of
        Inl e \<Rightarrow> (Inl e, [])
      | Inr fs \<Rightarrow> build_rules pf bc bdir dir fs buildsConfig [])"


subsection \<open>\<open>buildUserProject\<close>\<close>

text \<open>Any error of the installation or of the build is replaced by \<open>Error('Build failed.')\<close>;
  \<open>buildsConfig\<close> is \<open>nowJson.builds\<close>, and \<open>undefined.map\<close> throws inside the \<open>try\<close>.\<close>

definition buildUserProject_v1 ::
  "platform \<Rightarrow> builder_cache \<Rightarrow> DevServer_v1 \<Rightarrow> BuildConfig list option \<Rightarrow>
   (js_error + BuilderOutputs) \<times> DevServer_v1 \<times> event list" where
  "buildUserProject_v1 pf bc s buildsConfig =
     (let s1 = setStatusBusy ''installing builders'' s
      in case buildsConfig of
           None \<Rightarrow> (Inl (Error ''Build failed.''), s1, [])
         | Some bs \<Rightarrow>
             (case installBuilders bc (builderDirectory s1) bs of
                (Some e, evs) \<Rightarrow> (Inl (Error ''Build failed.''), s1, evs)
              | (None, evs) \<Rightarrow>
                  (let s2 = setStatusBusy ''building lambdas'' s1
                   in case buildLambdas pf bc (builderDirectory s2) (cwd s2) bs of
                        (Inl e, evs') \<Rightarrow> (Inl (Error ''Build failed.''), s2, evs @ evs')
                      | (Inr assets, evs') \<Rightarrow> (Inr assets, setStatusIdle s2, evs @ evs'))))"

subsection \<open>\<open>route\<close> and \<open>matchHandler\<close>\<close>

text \<open>\<open>assets[url] || assets[url + "index.js"] || assets[url + "/index.js"] ||
  assets[url + "/index.html"]\<close>: the first of the four properties that is there.\<close>

definition matchHandler :: "BuilderOutputs \<Rightarrow> string \<Rightarrow> BuilderOutput option" where
  "matchHandler assets u =
     (case property assets u of
        Some a \<Rightarrow> Some a
      | None \<Rightarrow>
          (case property assets (u @ ''index.js'') of
             Some a \<Rightarrow> Some a
           | None \<Rightarrow>
               (case property assets (u @ ''/index.js'') of
                  Some a \<Rightarrow> Some a
                | None \<Rightarrow> property assets (u @ ''/index.html''))))"

text \<open>The \<open>reduce\<close> over the routes: a rule with a (non-empty) \<open>dest\<close> rewrites the path by
  \<open>accu.replace(new RegExp('^' + curr.src + '$'), curr.dest)\<close>, any other rule leaves it.\<close>

fun rewrite :: "regexp \<Rightarrow> RouteConfig list \<Rightarrow> string \<Rightarrow> js_error + string" where
  "rewrite rx [] accu = Inr accu"
| "rewrite rx (cur # rest) accu =
     (case route_dest cur of
        None \<Rightarrow> rewrite rx rest accu
      | Some d \<Rightarrow>
          if d = [] then rewrite rx rest accu
          else (case js_replace rx (''^'' @ route_src cur @ ''$'') d accu of
                  Inl e \<Rightarrow> Inl e
                | Inr accu' \<Rightarrow> rewrite rx rest accu'))"

text \<open>The value of \<open>reqDest\<close> when \<open>route\<close> reaches \<open>matchHandler\<close>.\<close>

definition reqDest :: "regexp \<Rightarrow> string \<Rightarrow> RouteConfig list option \<Rightarrow> js_error + string" where
  "reqDest rx u rs =
     (case rs of
        None \<Rightarrow> Inr (strip_leading_slash u)
      | Some rules \<Rightarrow> rewrite rx rules (strip_leading_slash u))"

definition route ::
  "regexp \<Rightarrow> request \<Rightarrow> BuilderOutputs \<Rightarrow> RouteConfig list option \<Rightarrow> js_error + BuilderOutput" where
  "route rx req assets rs =
     (case url req of
        None \<Rightarrow> Inr empty_output
      | Some u \<Rightarrow>
          (case reqDest rx u rs of
             Inl e \<Rightarrow> Inl e
           | Inr d \<Rightarrow> Inr (case matchHandler assets d of Some h \<Rightarrow> h | None \<Rightarrow> empty_output)))"

subsection \<open>\<open>serveStatics\<close>, \<open>serveBuilds\<close> and the handler\<close>

definition serveStatics :: "platform \<Rightarrow> request \<Rightarrow> response \<Rightarrow> string \<Rightarrow> js_error + response" where
  "serveStatics pf req res dir =
     (case url req of
        None \<Rightarrow> Inr (send 404 NoBody res)
      | Some u \<Rightarrow>
          (let dest = join pf dir (strip_leading_slash u)
           in case lstat_isFile pf dest of
                Inl e \<Rightarrow> Inl e
              | Inr True \<Rightarrow> Inr (send_stream 200 dest res)
              | Inr False \<Rightarrow> Inr (send 404 NoBody res)))"

text \<open>The payload that \<open>serveBuilds\<close> hands to the function.\<close>

definition payload_v1 :: "request \<Rightarrow> InvokePayload" where
  "payload_v1 req =
     \<lparr> ip_method = req_method req, ip_path = url req, ip_headers = req_headers req,
       ip_encoding = ''base64'', ip_body = ''eyJlaXlvIjp0cnVlfQ=='' \<rparr>"

text \<open>\<open>serveBuilds\<close> builds the project, routes the request and, for a \<open>Lambda\<close>, creates and
  calls the function; it logs what the function returns and writes nothing to the response.\<close>

definition serveBuilds ::
  "platform \<Rightarrow> builder_cache \<Rightarrow> DevServer_v1 \<Rightarrow> request \<Rightarrow> NowConfig \<Rightarrow>
   js_error option \<times> DevServer_v1 \<times> event list" where
  "serveBuilds pf bc s req nowJson =
     (case buildUserProject_v1 pf bc s (builds nowJson) of
        (Inl e, s', evs) \<Rightarrow> (Some e, s', evs)
      | (Inr assets, s', evs) \<Rightarrow>
          (case route (regexps pf) req assets (routes nowJson) of
             Inl e \<Rightarrow> (Some e, s', evs)
           | Inr h \<Rightarrow>
               if type h = Some ''Lambda'' then
                 (case createFunction pf h of
                    Inl e \<Rightarrow> (Some e, s', evs @ [CreateFunction h])
                  | Inr f \<Rightarrow>
                      (call pf f (payload_v1 req), s',
                       evs @ [CreateFunction h, Invoke f (payload_v1 req)]))
               else (None, s', evs)))"

text \<open>The \<open>try\<close> of the handler with its \<open>catch\<close>: the state, the response and the trace
  after it.\<close>

definition handle_v1 ::
  "platform \<Rightarrow> builder_cache \<Rightarrow> DevServer_v1 \<Rightarrow> request \<Rightarrow> response \<Rightarrow>
   DevServer_v1 \<times> response \<times> event list" where
  "handle_v1 pf bc s req res =
     (case readLocalConfig pf (cwd s) of
        Inl e \<Rightarrow> (setStatusError (err_message e) s, res, [])
      | Inr None \<Rightarrow>
          (case serveStatics pf req res (cwd s) of
             Inl e \<Rightarrow> (setStatusError (err_message e) s, res, [])
           | Inr res' \<Rightarrow> (s, res', []))
      | Inr (Some nowJson) \<Rightarrow>
          if builds nowJson \<noteq> None then
            (case serveBuilds pf bc s req nowJson of
               (Some e, s', evs) \<Rightarrow> (setStatusError (err_message e) s', res, evs)
             | (None, s', evs) \<Rightarrow> (s', res, evs))
          else (s, res, []))"

definition devServerHandler_v1 ::
  "platform \<Rightarrow> builder_cache \<Rightarrow> DevServer_v1 \<Rightarrow> request \<Rightarrow> DevServer_v1 \<times> response \<times> event list" where
  "devServerHandler_v1 pf bc s req =
     (if status s = busy then
        (s, res_end (Text (''[busy] '' @ statusMessage s @ ''...'')) new_response, [])
      else if url req = Some ''/favicon.ico'' then (s, res_end (Text []) new_response, [])
      else
        (case handle_v1 pf bc s req new_response of
           (s', res, evs) \<Rightarrow>
             (setStatusIdle s',
              if \<not> finished res then send 500 (Text (statusMessage s')) res else res,
              evs)))"

section \<open>The second server (\<open>src/commands/dev/lib/dev-server.ts\<close>)\<close>

text \<open>
  The result of the router, as \<open>serveProjectAsNowV2\<close> takes it apart; \<open>status\<close> and \<open>headers\<close>
  may be missing.
\<close>

record RouteResult =
  rr_dest :: string
  rr_status :: "nat option"
  rr_headers :: "header_map option"
  uri_args :: "(string \<times> string) list option"
  matched_route :: "RouteConfig option"

text \<open>The server: \<open>listening\<close> is the port on which \<open>this.server\<close>, the HTTP server made by
  \<open>http.createServer(this.devServerHandler)\<close>, takes requests, if it listens.\<close>

record DevServer = DevServerState +
  debug :: bool
  assets :: BuilderOutputs
  listening :: "nat option"

text \<open>The constructor: a new server is busy, has published nothing and does not listen.\<close>

definition new_DevServer :: "string \<Rightarrow> bool \<Rightarrow> DevServer" where
  "new_DevServer dir dbg =
     \<lparr> cwd = dir, status = busy, statusMessage = [], debug = dbg, assets = [], listening = None \<rparr>"

text \<open>
  The modules that the second server imports are parameters: \<open>readNowJson\<close> reads and parses
  the file at \<open>getNowJsonPath(cwd)\<close>; \<open>listen\<close> is \<open>None\<close> when the port opens, and
  \<open>listen_rejects_first\<close> says which rejection \<open>Promise.all\<close> reports when both of its
  promises reject; \<open>isURL\<close> and \<open>devRouter\<close> are \<open>./is-url\<close> and \<open>./dev-router\<close>;
  \<open>buildUserProject\<close> is the one of \<open>./dev-builder\<close>, which builds from the configuration
  and the server's public \<open>cwd\<close> and can change the server only by its public status setters:
  it returns its result with the status and message it set last, if it set any;
  \<open>ignores dir path\<close> is \<open>createIgnoreList(dir).ignores(path)\<close>; \<open>invoke f payload\<close> is the
  call \<open>asset.fn({Action: 'Invoke', body: JSON.stringify(payload)})\<close>; \<open>basename\<close> and
  \<open>dirname\<close> are those of \<open>path\<close>, which throw when their argument is not a string.
\<close>

record modules =
  readNowJson :: "string \<Rightarrow> js_error + NowConfig"
  listen :: "nat \<Rightarrow> js_error option"
  listen_rejects_first :: bool
  isURL :: "string \<Rightarrow> bool"
  devRouter :: "string option \<Rightarrow> RouteConfig list option \<Rightarrow> RouteResult"
  buildUserProject :: "NowConfig \<Rightarrow> string \<Rightarrow> (js_error + BuilderOutputs) \<times> (DevServerStatus \<times> string) option"
  ignores :: "string \<Rightarrow> string \<Rightarrow> bool"
  invoke :: "nat \<Rightarrow> InvokePayload \<Rightarrow> js_error + InvokeResult"
  basename :: "string option \<Rightarrow> js_error + string"
  dirname :: "string option \<Rightarrow> js_error + string"

subsection \<open>\<open>validateNowConfig\<close>, \<open>getNowJson\<close> and \<open>start\<close>\<close>

text \<open>\<open>val[0] === '@'\<close>.\<close>

fun is_secret :: "string \<Rightarrow> bool" where
  "is_secret [] = False"
| "is_secret (c # cs) = (c = CHR ''@'')"

text \<open>\<open>Object.values(o || {})\<close>.\<close>

fun object_values :: "('k \<times> 'v) list option \<Rightarrow> 'v list" where
  "object_values None = []"
| "object_values (Some kvs) = map snd kvs"

definition hasSecretEnv :: "NowConfig \<Rightarrow> bool" where
  "hasSecretEnv c =
     list_ex is_secret
       (object_values (env c)
        @ object_values (case build c of None \<Rightarrow> None | Some buildConfig \<Rightarrow> build_env buildConfig))"

text \<open>The two errors of \<open>validateNowConfig\<close>.\<close>

definition unsupported_version :: js_error where
  "unsupported_version = Error ''Only `version: 2` is supported by `now dev`''"

definition unsupported_secret :: js_error where
  "unsupported_secret = Error ''Secret env vars are not yet supported by `now dev`''"

definition validateNowConfig :: "NowConfig \<Rightarrow> js_error + unit" where
  "validateNowConfig c =
     (if version c \<noteq> 2 then Inl unsupported_version
      else if hasSecretEnv c then Inl unsupported_secret
      else Inr ())"

text \<open>The \<open>catch\<close> of \<open>getNowJson\<close>: an error whose code is not \<open>ENOENT\<close> is thrown again,
  a missing file gives \<open>null\<close>.\<close>

definition rethrow_unless_missing :: "js_error \<Rightarrow> js_error + NowConfig option" where
  "rethrow_unless_missing err = (if err_code err \<noteq> Some ''ENOENT'' then Inl err else Inr None)"

definition getNowJson :: "modules \<Rightarrow> string \<Rightarrow> js_error + NowConfig option" where
  "getNowJson md dir =
     (case readNowJson md dir of
        Inl err \<Rightarrow> rethrow_unless_missing err
      | Inr c \<Rightarrow>
          (case validateNowConfig c of
             Inl err \<Rightarrow> rethrow_unless_missing err
           | Inr u \<Rightarrow> Inr (Some c)))"

definition set_status :: "(DevServerStatus \<times> string) option \<Rightarrow> DevServer \<Rightarrow> DevServer" where
  "set_status st s = (case st of None \<Rightarrow> s | Some (a, msg) \<Rightarrow> s\<lparr> status := a, statusMessage := msg \<rparr>)"

text \<open>\<open>listen(this.server, port)\<close>: when it succeeds the server listens on the port.\<close>

definition opened :: "modules \<Rightarrow> nat \<Rightarrow> DevServer \<Rightarrow> DevServer" where
  "opened md port s = (case listen md port of None \<Rightarrow> s\<lparr> listening := Some port \<rparr> | Some e \<Rightarrow> s)"

text \<open>
  \<open>start\<close>: the error it throws, if any, and the server after it. The two promises of
  \<open>Promise.all([this.getNowJson(), listen(this.server, port)])\<close> are both started, so the port
  is opened whether the configuration loads or not; the build and \<open>setStatusIdle\<close> follow only
  when both succeed.
\<close>

definition start :: "modules \<Rightarrow> DevServer \<Rightarrow> nat \<Rightarrow> js_error option \<times> DevServer" where
  "start md s port =
     (let s0 = opened md port s
      in case (getNowJson md (cwd s), listen md port) of
           (Inl e, None) \<Rightarrow> (Some e, s0)
         | (Inl e, Some e') \<Rightarrow> (Some (if listen_rejects_first md then e' else e), s0)
         | (Inr nowJson, Some e') \<Rightarrow> (Some e', s0)
         | (Inr None, None) \<Rightarrow> (None, setStatusIdle s0)
         | (Inr (Some nowJson), None) \<Rightarrow>
             if builds nowJson \<noteq> None then
               (case buildUserProject md nowJson (cwd s) of
                  (Inl e, st) \<Rightarrow> (Some e, set_status st s0)
                | (Inr built, st) \<Rightarrow> (None, setStatusIdle ((set_status st s0)\<lparr> assets := built \<rparr>)))
             else (None, setStatusIdle s0))"

subsection \<open>\<open>resolveDest\<close>\<close>

text \<open>
  \<open>if (assets[assetKey]) return assets[assetKey]\<close>, then the first of \<open>Object.keys(assets)\<close>
  whose name without its index suffix is the key without its trailing slash, and
  \<open>if (foundIndex) return assets[foundIndex]\<close>.
\<close>

definition resolveDest :: "BuilderOutputs \<Rightarrow> string \<Rightarrow> BuilderOutput option" where
  "resolveDest built dest =
     (let assetKey = strip_leading_slash dest
      in case property built assetKey of
           Some a \<Rightarrow> Some a
         | None \<Rightarrow>
             (case find (\<lambda>name. strip_index name = strip_trailing_slash assetKey) (map fst built) of
                None \<Rightarrow> None
              | Some foundIndex \<Rightarrow> if foundIndex \<noteq> [] then property built foundIndex else None))"

subsection \<open>Serving a request\<close>

definition serveStaticFile :: "request \<Rightarrow> response \<Rightarrow> string \<Rightarrow> response" where
  "serveStaticFile req res dir = res\<lparr> ended := Some (ServeStaticFile (url req) dir) \<rparr>"

definition proxyPass :: "request \<Rightarrow> response \<Rightarrow> string \<Rightarrow> response" where
  "proxyPass req res dest = res\<lparr> ended := Some (ProxyPass dest) \<rparr>"

definition serveProjectAsStatics :: "modules \<Rightarrow> request \<Rightarrow> response \<Rightarrow> string \<Rightarrow> response" where
  "serveProjectAsStatics md req res dir =
     (let filePath = (case url req of None \<Rightarrow> [] | Some u \<Rightarrow> strip_leading_slash u)
      in if filePath \<noteq> [] \<and> ignores md dir filePath
         then res_end NoBody (res\<lparr> statusCode := 404 \<rparr>)
         else serveStaticFile req res dir)"

text \<open>\<open>x || d\<close> on an optional string: a missing or empty \<open>x\<close> gives \<open>d\<close>.\<close>

fun or_default :: "string option \<Rightarrow> string \<Rightarrow> string" where
  "or_default None d = d"
| "or_default (Some x) d = (if x = [] then d else x)"

text \<open>The payload of an invocation: the body of the request in base64.\<close>

definition payload :: "request \<Rightarrow> InvokePayload" where
  "payload req =
     \<lparr> ip_method = Some (or_default (req_method req) ''GET''),
       ip_path = Some (or_default (url req) ''/''),
       ip_headers = req_headers req,
       ip_encoding = ''base64'',
       ip_body = base64_encode (req_body req) \<rparr>"

text \<open>The body written for a result: decoded when the result says \<open>base64\<close> and its body
  is a string, as it is otherwise.\<close>

definition resBody :: "InvokeResult \<Rightarrow> body" where
  "resBody result =
     (case ir_body result of
        Text b \<Rightarrow> if ir_encoding result = Some ''base64'' then Bytes (base64_decode b) else Text b
      | other \<Rightarrow> other)"

text \<open>The defaults of the destructuring \<open>{dest, status = 200, headers = {}, ...}\<close>.\<close>

definition routed_status :: "RouteResult \<Rightarrow> nat" where
  "routed_status r = (case rr_status r of None \<Rightarrow> 200 | Some n \<Rightarrow> n)"

definition routed_headers :: "RouteResult \<Rightarrow> header_map" where
  "routed_headers r = (case rr_headers r of None \<Rightarrow> [] | Some h \<Rightarrow> h)"

text \<open>
  \<open>serveProjectAsNowV2\<close>: the response it finishes, or the error it throws with the response
  as it is then, and the trace.
\<close>

definition serveProjectAsNowV2 ::
  "modules \<Rightarrow> DevServer \<Rightarrow> request \<Rightarrow> response \<Rightarrow> string \<Rightarrow> NowConfig \<Rightarrow>
   (js_error \<times> response + response) \<times> event list" where
  "serveProjectAsNowV2 md s req res dir nowJson =
     (let r = devRouter md (url req) (routes nowJson);
          dest = rr_dest r;
          res1 = setHeaders (routed_headers r) res
      in if isURL md dest then (Inr (proxyPass req res1 dest), [])
         else if routed_status r \<in> {301, 302, 303} then (Inr (res_end NoBody res1), [])
         else if builds nowJson = None then (Inr (serveStaticFile req res1 dir), [])
         else
           (case resolveDest (assets s) dest of
              None \<Rightarrow> (Inr (res_end NoBody (res1\<lparr> statusCode := 404 \<rparr>)), [Resolve dest])
            | Some asset \<Rightarrow>
                if type asset = Some ''FileFsRef'' then
                  (case basename md (fsPath asset) of
                     Inl e \<Rightarrow> (Inl (e, res1), [Resolve dest])
                   | Inr base \<Rightarrow>
                       (case dirname md (fsPath asset) of
                          Inl e \<Rightarrow> (Inl (e, res1), [Resolve dest])
                        | Inr d \<Rightarrow>
                            (Inr (serveStaticFile (req\<lparr> url := Some (''/'' @ base) \<rparr>) res1 d),
                             [Resolve dest])))
                else if type asset = Some ''Lambda'' then
                  (case fn asset of
                     None \<Rightarrow>
                       (Inr (res_end (Text ''Lambda function has not been built'')
                               (res1\<lparr> statusCode := 500 \<rparr>)),
                        [Resolve dest])
                   | Some f \<Rightarrow>
                       (case invoke md f (payload req) of
                          Inl e \<Rightarrow> (Inl (e, res1), [Resolve dest, Invoke f (payload req)])
                        | Inr result \<Rightarrow>
                            (Inr (res_end (resBody result)
                                    (setHeaders (ir_headers result)
                                       (res1\<lparr> statusCode := ir_statusCode result \<rparr>))),
                             [Resolve dest, Invoke f (payload req)])))
                else (Inr (res_end NoBody (res1\<lparr> statusCode := 500 \<rparr>)), [Resolve dest])))"

text \<open>The \<open>try\<close> of the handler.\<close>

definition serve ::
  "modules \<Rightarrow> DevServer \<Rightarrow> request \<Rightarrow> response \<Rightarrow> (js_error \<times> response + response) \<times> event list" where
  "serve md s req res =
     (case getNowJson md (cwd s) of
        Inl e \<Rightarrow> (Inl (e, res), [])
      | Inr None \<Rightarrow> (Inr (serveProjectAsStatics md req res (cwd s)), [])
      | Inr (Some nowJson) \<Rightarrow> serveProjectAsNowV2 md s req res (cwd s) nowJson)"

definition devServerHandler :: "modules \<Rightarrow> DevServer \<Rightarrow> request \<Rightarrow> DevServer \<times> response \<times> event list" where
  "devServerHandler md s req =
     (if status s = busy then
        (s, res_end (Text (''[busy] '' @ statusMessage s @ ''...'')) new_response, [])
      else
        (case serve md s req new_response of
           (Inr res, evs) \<Rightarrow> (setStatusIdle s, res, evs)
         | (Inl (e, res), evs) \<Rightarrow>
             (let s1 = setStatusError (err_message e) s
              in (setStatusIdle s1,
                  if \<not> finished res then res_end (Text (statusMessage s1)) (res\<lparr> statusCode := 500 \<rparr>)
                  else res,
                  evs))))"

section \<open>Requests one after another\<close>

text \<open>
  \<open>http.createServer(this.devServerHandler)\<close> calls the handler for every request that
  arrives. \<open>handle_all\<close> is a run of requests, each handled in the state the one before it
  left: the responses in the order of the requests, and the trace of the whole run.
\<close>

fun handle_all ::
  "('s \<Rightarrow> request \<Rightarrow> 's \<times> response \<times> event list) \<Rightarrow> 's \<Rightarrow> request list \<Rightarrow>
   's \<times> response list \<times> event list" where
  "handle_all h s [] = (s, [], [])"
| "handle_all h s (req # reqs) =
     (case h s req of
        (s', res, evs) \<Rightarrow>
          (case handle_all h s' reqs of (s'', ress, evs') \<Rightarrow> (s'', res # ress, evs @ evs')))"

text \<open>A request sent to the port \<open>port\<close>: the connection is refused unless the server listens
  there, otherwise the handler answers.\<close>

definition answer ::
  "modules \<Rightarrow> DevServer \<Rightarrow> nat \<Rightarrow> request \<Rightarrow> (DevServer \<times> response \<times> event list) option" where
  "answer md s port req =
     (if listening s = Some port then Some (devServerHandler md s req) else None)"

section \<open>The router and the URL test, from the specification\<close>

text \<open>
  Modelled from the spec: \<open>./is-url\<close> is not among the sources. The specification speaks of
  a destination that is an absolute, fully qualified URL; here that is a string that starts
  with \<open>http://\<close> or \<open>https://\<close>.
\<close>

definition is_absolute_url :: "string \<Rightarrow> bool" where
  "is_absolute_url d = (take 7 d = ''http://'' \<or> take 8 d = ''https://'')"

text \<open>
  Modelled from the spec: \<open>./dev-router\<close> is not among the sources. Section 4.1 of the
  specification: strip the leading slash from the request path; go through the rules in
  their order; a rule whose \<open>src\<close> matches the current path (and whose \<open>methods\<close>, if present,
  include the request method) substitutes the captures into its \<open>dest\<close> if it has one, merges
  its headers into the accumulated ones and records its status if it has one; a rule with a
  terminal outcome (a status of 301, 302 or 303, or a \<open>dest\<close> that is an absolute URL) stops
  the matching, otherwise the rewritten path is fed to the remaining rules; if no rule matches,
  the path passes through unchanged with status 200 and no extra headers.
\<close>

text \<open>Modelled from the spec: a rule without \<open>methods\<close> takes every request method, a rule
  with \<open>methods\<close> the ones it lists.\<close>

definition method_allowed :: "RouteConfig \<Rightarrow> string \<Rightarrow> bool" where
  "method_allowed rule m = (case route_methods rule of None \<Rightarrow> True | Some ms \<Rightarrow> m \<in> set ms)"

text \<open>Modelled from the spec: the terminal outcomes, a status of 301, 302 or 303 and a
  \<open>dest\<close> that is an absolute URL.\<close>

definition terminal :: "(string \<Rightarrow> bool) \<Rightarrow> RouteConfig \<Rightarrow> string \<Rightarrow> bool" where
  "terminal isurl rule d =
     ((case route_status rule of None \<Rightarrow> False | Some n \<Rightarrow> n \<in> {301, 302, 303})
      \<or> (route_dest rule \<noteq> None \<and> isurl d))"

text \<open>Modelled from the spec: what a matching rule does to the result so far. The captures
  go into its \<open>dest\<close>, its headers are merged into the accumulated ones, its status is
  recorded.\<close>

definition apply_rule :: "regexp \<Rightarrow> RouteConfig \<Rightarrow> nat \<Rightarrow> nat \<Rightarrow> string list \<Rightarrow> RouteResult \<Rightarrow> RouteResult" where
  "apply_rule rx rule i n groups acc =
     acc\<lparr> rr_dest := (case route_dest rule of
                        None \<Rightarrow> rr_dest acc
                      | Some t \<Rightarrow> substitute rx t (rr_dest acc) i n groups),
          rr_status := (case route_status rule of None \<Rightarrow> rr_status acc | Some n \<Rightarrow> Some n),
          rr_headers := Some (fold (\<lambda>(name, v). set_header name v)
                                (case route_headers rule of None \<Rightarrow> [] | Some h \<Rightarrow> h)
                                (case rr_headers acc of None \<Rightarrow> [] | Some h \<Rightarrow> h)),
          matched_route := Some rule \<rparr>"

text \<open>Modelled from the spec: the rules in their order. A rule that does not match leaves
  the result as it is; after a rule that matches, the matching stops at a terminal outcome
  and goes on with the rewritten path otherwise.\<close>

fun match_rules ::
  "regexp \<Rightarrow> (string \<Rightarrow> bool) \<Rightarrow> string \<Rightarrow> RouteConfig list \<Rightarrow> RouteResult \<Rightarrow> RouteResult" where
  "match_rules rx isurl m [] acc = acc"
| "match_rules rx isurl m (rule # rest) acc =
     (case (if method_allowed rule m then exec rx (route_src rule) (rr_dest acc) else RxNoMatch) of
        RxMatch i n groups \<Rightarrow>
          (let acc' = apply_rule rx rule i n groups acc
           in if terminal isurl rule (rr_dest acc') then acc' else match_rules rx isurl m rest acc')
      | other \<Rightarrow> match_rules rx isurl m rest acc)"

text \<open>Modelled from the spec: the router, \<open>match(requestPath, requestMethod, rules)\<close>. It
  starts from the request path without its leading slash, the status 200 and no headers.\<close>

definition router_match ::
  "regexp \<Rightarrow> (string \<Rightarrow> bool) \<Rightarrow> string \<Rightarrow> string \<Rightarrow> RouteConfig list \<Rightarrow> RouteResult" where
  "router_match rx isurl requestPath requestMethod rules =
     match_rules rx isurl requestMethod rules
       \<lparr> rr_dest = strip_leading_slash requestPath, rr_status = Some 200, rr_headers = Some [],
         uri_args = None, matched_route = None \<rparr>"

section \<open>Examples for evaluation\<close>

definition cache_ok :: builder_cache where
  "cache_ok = \<lparr> install = (\<lambda>dir pkg. None), get = (\<lambda>dir pkg. Inr (\<lambda>args. Inr [])) \<rparr>"

definition rule_node_a :: BuildConfig where
  "rule_node_a = \<lparr> src = ''api/a.js'', use = ''@now/node'', config = None \<rparr>"

definition rule_node_b :: BuildConfig where
  "rule_node_b = \<lparr> src = ''api/b.js'', use = ''@now/node'', config = None \<rparr>"

definition rule_static :: BuildConfig where
  "rule_static = \<lparr> src = ''*.html'', use = ''@now/static'', config = None \<rparr>"

definition file_output :: "string \<Rightarrow> BuilderOutput" where
  "file_output p = empty_output\<lparr> type := Some ''FileFsRef'', fsPath := Some p \<rparr>"

definition lambda_output :: "nat \<Rightarrow> BuilderOutput" where
  "lambda_output f = empty_output\<lparr> type := Some ''Lambda'', fn := Some f \<rparr>"

text \<open>A directory with two index files.\<close>

definition two_indexes :: BuilderOutputs where
  "two_indexes =
     [(''api/index.html'', file_output ''/project/api/index.html''),
      (''api/index.js'', lambda_output 1)]"

text \<open>A project with a page and a function source; a builder that passes its entry
  through as a file, and one that throws.\<close>

definition project_files :: "(string \<times> string) list" where
  "project_files = [(''index.html'', ''/project/index.html''), (''api/a.js'', ''/project/api/a.js'')]"

definition static_builder :: "build_args \<Rightarrow> js_error + BuilderOutputs" where
  "static_builder args = Inr [(entrypoint args, file_output (workPath args @ ''/'' @ entrypoint args))]"

definition failing_builder :: "build_args \<Rightarrow> js_error + BuilderOutputs" where
  "failing_builder args = Inl (Error ''cannot compile'')"

definition cache_node_fails :: builder_cache where
  "cache_node_fails =
     \<lparr> install = (\<lambda>dir pkg. None),
       get = (\<lambda>dir pkg. Inr (if pkg = ''@now/node'' then failing_builder else static_builder)) \<rparr>"

text \<open>An engine for the examples: it decides the patterns that are plain text, alone or
  between \<open>^\<close> and \<open>$\<close>, and its replacement is the template as it stands.\<close>

definition literal_regexp :: regexp where
  "literal_regexp =
     \<lparr> exec = (\<lambda>p s. if p = s \<or> p = ''^'' @ s @ ''$'' then RxMatch 0 (length s) [] else RxNoMatch),
       substitute = (\<lambda>t s i n groups. t) \<rparr>"

definition route_old_new :: RouteConfig where
  "route_old_new =
     \<lparr> route_src = ''old'', route_dest = Some ''new'', route_methods = None,
       route_headers = None, route_status = None \<rparr>"

definition project_platform :: platform where
  "project_platform =
     \<lparr> glob = (\<lambda>pattern dir.
                 Inr (if pattern = ''**'' then project_files
                      else filter (\<lambda>(name, p). name = pattern) project_files)),
       relative = (\<lambda>dir p. drop (Suc (length dir)) p),
       join = (\<lambda>dir p. dir @ ''/'' @ p),
       bold = (\<lambda>t. t),
       stack = err_message,
       lstat_isFile = (\<lambda>p. Inr True),
       readLocalConfig = (\<lambda>dir. Inr None),
       createFunction = (\<lambda>h. Inr 0),
       call = (\<lambda>f p. None),
       regexps = literal_regexp \<rparr>"

definition rule_page :: BuildConfig where
  "rule_page = \<lparr> src = ''index.html'', use = ''@now/static'', config = None \<rparr>"

definition get_request :: "string \<Rightarrow> request" where
  "get_request u = \<lparr> url = Some u, req_method = Some ''GET'', req_headers = [], req_body = [] \<rparr>"

definition post_request :: "string \<Rightarrow> bytes \<Rightarrow> request" where
  "post_request u b =
     \<lparr> url = Some u, req_method = Some ''POST'',
       req_headers = [(''content-type'', ''text/plain'')], req_body = b \<rparr>"

definition building_v1 :: DevServer_v1 where
  "building_v1 =
     \<lparr> cwd = ''/project'', status = busy, statusMessage = ''building lambdas'',
       builderDirectory = ''/cache'' \<rparr>"

text \<open>A configuration that passes the validation, and three that do not.\<close>

definition config_ok :: NowConfig where
  "config_ok =
     \<lparr> version = 2, builds = Some [rule_node_a], routes = None,
       env = Some [(''NAME'', ''value'')],
       build = Some \<lparr> build_env = Some [(''STAGE'', ''dev'')] \<rparr> \<rparr>"

definition config_version_1 :: NowConfig where
  "config_version_1 = config_ok\<lparr> version := 1 \<rparr>"

definition config_secret :: NowConfig where
  "config_secret = config_ok\<lparr> env := Some [(''NAME'', ''value''), (''TOKEN'', ''@token'')] \<rparr>"

definition config_build_secret :: NowConfig where
  "config_build_secret = config_ok\<lparr> build := Some \<lparr> build_env = Some [(''TOKEN'', ''@token'')] \<rparr> \<rparr>"

text \<open>A function that answers with the body it was sent, still in base64.\<close>

definition echo :: "nat \<Rightarrow> InvokePayload \<Rightarrow> js_error + InvokeResult" where
  "echo f p =
     Inr \<lparr> ir_statusCode = 200, ir_headers = [(''x-echo'', ''1'')], ir_body = Text (ip_body p),
           ir_encoding = Some (ip_encoding p) \<rparr>"

definition last_segment :: "string option \<Rightarrow> js_error + string" where
  "last_segment p =
     (case p of
        None \<Rightarrow> Inl (Error ''The path must be a string'')
      | Some q \<Rightarrow> Inr (rev (takeWhile (\<lambda>c. c \<noteq> CHR ''/'') (rev q))))"

definition directory :: "string option \<Rightarrow> js_error + string" where
  "directory p =
     (case p of
        None \<Rightarrow> Inl (Error ''The path must be a string'')
      | Some q \<Rightarrow> Inr (rev (drop 1 (dropWhile (\<lambda>c. c \<noteq> CHR ''/'') (rev q)))))"

text \<open>The modules of the examples: the configuration file holds \<open>c\<close>, the router is the
  one of the specification for a \<open>GET\<close>, the build fails.\<close>

definition project_modules :: "NowConfig \<Rightarrow> modules" where
  "project_modules c =
     \<lparr> readNowJson = (\<lambda>dir. Inr c),
       listen = (\<lambda>port. None),
       listen_rejects_first = False,
       isURL = is_absolute_url,
       devRouter = (\<lambda>u rs. router_match literal_regexp is_absolute_url (or_default u [])
                               ''GET'' (case rs of None \<Rightarrow> [] | Some rules \<Rightarrow> rules)),
       buildUserProject = (\<lambda>nowJson dir. (Inl (Error ''Build failed.''), Some (busy, ''building''))),
       ignores = (\<lambda>dir p. False),
       invoke = echo,
       basename = last_segment,
       dirname = directory \<rparr>"

definition serving :: DevServer where
  "serving =
     \<lparr> cwd = ''/project'', status = idle, statusMessage = [], debug = False,
       assets = [(''api/index.js'', lambda_output 1)], listening = Some 3000 \<rparr>"

definition building :: DevServer where
  "building = serving\<lparr> status := busy, statusMessage := ''building'' \<rparr>"



text \<open>A rule that answers \<open>old\<close> with a redirection, and one whose redirection names an
  absolute URL as its destination.\<close>

definition route_redirect :: RouteConfig where
  "route_redirect =
     \<lparr> route_src = ''old'', route_dest = None, route_methods = None,
       route_headers = Some [(''Location'', ''/new'')], route_status = Some 302 \<rparr>"

definition route_redirect_url :: RouteConfig where
  "route_redirect_url =
     \<lparr> route_src = ''old'', route_dest = Some ''https://example.com/new'', route_methods = None,
       route_headers = Some [(''Location'', ''https://example.com/new'')], route_status = Some 302 \<rparr>"

definition config_redirect :: NowConfig where
  "config_redirect = config_ok\<lparr> routes := Some [route_redirect] \<rparr>"

text \<open>A routing result with the status 302 and an absolute URL as its destination, and
  modules whose router returns it.\<close>

definition redirect_to_url :: RouteResult where
  "redirect_to_url =
     \<lparr> rr_dest = ''https://example.com/new'', rr_status = Some 302,
       rr_headers = Some [(''Location'', ''https://example.com/new'')],
       uri_args = None, matched_route = Some route_redirect_url \<rparr>"

definition modules_redirect_to_url :: modules where
  "modules_redirect_to_url = (project_modules config_ok)\<lparr> devRouter := (\<lambda>u rs. redirect_to_url) \<rparr>"

text \<open>A first server that is idle, over a project whose one build rule gives a function.\<close>

definition lambda_source :: BuilderOutput where
  "lambda_source =
     empty_output\<lparr> type := Some ''Lambda'', zipBuffer := Some ''zip'',
                   handler := Some ''index.handler'', runtime := Some ''nodejs8.10'' \<rparr>"

definition cache_lambda :: builder_cache where
  "cache_lambda =
     \<lparr> install = (\<lambda>dir pkg. None),
       get = (\<lambda>dir pkg. Inr (\<lambda>args. Inr [(entrypoint args, lambda_source)])) \<rparr>"

definition platform_configured :: platform where
  "platform_configured = project_platform\<lparr> readLocalConfig := (\<lambda>dir. Inr (Some config_ok)) \<rparr>"

definition idle_v1 :: DevServer_v1 where
  "idle_v1 = building_v1\<lparr> status := idle, statusMessage := [] \<rparr>"

section \<open>Objects\<close>

text \<open>A spread keeps the order of \<open>Object.keys\<close>: the array indices first, in ascending
  order, then the other keys in the order of their creation; a key that is there keeps its
  place and takes the later value. \<open>01\<close> is no array index.\<close>

lemma spread_key_order:
  "spread [(''2'', a), (''b'', b)] [(''c'', c), (''10'', d), (''1'', e), (''b'', f), (''01'', g)]
     = [(''1'', e), (''2'', a), (''10'', d), (''b'', f), (''c'', c), (''01'', g)]"
  by (simp add: spread_def array_index_def digits_value_def is_digit_def)

lemma array_index_examples:
  "array_index ''10'' = Some 10 \<and> array_index ''0'' = Some 0 \<and> array_index ''01'' = None
   \<and> array_index ''api/index.js'' = None \<and> array_index [] = None
   \<and> array_index ''4294967294'' = Some 4294967294 \<and> array_index ''4294967295'' = None"
  by (simp add: array_index_def digits_value_def is_digit_def)

text \<open>A name that every object inherits is read though it is no key, unless a key of that
  name hides it.\<close>

lemma property_examples:
  "property [] ''constructor'' = Some empty_output
   \<and> property [(''constructor'', lambda_output 1)] ''constructor'' = Some (lambda_output 1)
   \<and> property [(''constructor'', lambda_output 1)] ''toString'' = Some empty_output
   \<and> property [(''constructor'', lambda_output 1)] ''api'' = None"
  by (simp add: property_def inherited_def)

section \<open>Properties of \<open>installBuilders\<close>\<close>

lemma install_each_all_ok:
  "(\<And>p. install bc dir p = None) \<Longrightarrow> install_each bc dir bs = (None, map (Install dir) bs)"
  by (induction bs) simp_all

lemma install_each_events_subset:
  "set (snd (install_each bc dir bs)) \<subseteq> Install dir ` set bs"
  by (induction bs) (auto split: option.splits prod.splits)

lemma install_each_prefix:
  "\<exists>k. snd (install_each bc dir bs) = take k (map (Install dir) bs)"
proof (induction bs)
  case Nil
  show ?case by simp
next
  case (Cons b bs)
  then obtain k where k: "snd (install_each bc dir bs) = take k (map (Install dir) bs)" by blast
  show ?case
  proof (cases "install bc dir b")
    case None
    with k have "snd (install_each bc dir (b # bs)) = take (Suc k) (map (Install dir) (b # bs))"
      by (simp add: case_prod_beta)
    then show ?thesis by blast
  next
    case (Some e)
    then have "snd (install_each bc dir (b # bs)) = take 1 (map (Install dir) (b # bs))"
      by simp
    then show ?thesis by blast
  qed
qed

lemma builders_static: "''@now/static'' \<notin> set (builders cfg)"
  by (simp add: builders_def)

lemma builders_butlast:
  "butlast (builders cfg) = filter (\<lambda>p. p \<noteq> ''@now/static'') (map use cfg)"
  by (simp add: builders_def)

lemma builders_member:
  "p \<in> set (builders cfg) \<longleftrightarrow> p = ''@now/build-utils'' \<or> (p \<noteq> ''@now/static'' \<and> p \<in> use ` set cfg)"
  by (auto simp: builders_def)

lemma count_rule_plugins:
  "p \<noteq> ''@now/static'' \<Longrightarrow>
   count_list (filter (\<lambda>pkg. pkg \<noteq> ''@now/static'') (map use cfg)) p
   = length (filter (\<lambda>b. use b = p) cfg)"
  by (induction cfg) auto

lemma count_builders:
  "p \<noteq> ''@now/static'' \<Longrightarrow>
   count_list (builders cfg) p
   = length (filter (\<lambda>b. use b = p) cfg) + (if p = ''@now/build-utils'' then 1 else 0)"
  by (auto simp: builders_def count_rule_plugins)

lemma count_list_map_Install:
  "count_list (map (Install dir) xs) (Install dir p) = count_list xs p"
  by (induction xs) simp_all

lemma installBuilders_all_ok:
  "(\<And>q. install bc dir q = None) \<Longrightarrow>
   installBuilders bc dir cfg =
     (None, map (Install dir) (filter (\<lambda>p. p \<noteq> ''@now/static'') (map use cfg))
            @ [Install dir ''@now/build-utils''])"
  by (simp add: installBuilders_def install_each_all_ok builders_def)

text \<open>
  Claim C3, as amended. \<open>installBuilders\<close> does not remove duplicates. As long as no
  installation fails, it succeeds and the calls of \<open>builderCache.install\<close> are, in this order,
  one for the plugin of each build rule, in the order of the rules and \<open>@now/static\<close> left
  out, and then one for \<open>@now/build-utils\<close>. So a plugin identifier other than \<open>@now/static\<close>
  is handed to the installer once for every build rule that names it, and \<open>@now/build-utils\<close>
  once more than that; \<open>@now/static\<close> is never handed to it.
\<close>

theorem C3_install_once_per_rule:
  assumes "\<forall>q. install bc dir q = None"
  shows "installBuilders bc dir cfg =
           (None, map (Install dir) (filter (\<lambda>p. p \<noteq> ''@now/static'') (map use cfg))
                  @ [Install dir ''@now/build-utils''])
       \<and> (p \<noteq> ''@now/static'' \<longrightarrow>
            count_list (snd (installBuilders bc dir cfg)) (Install dir p)
            = length (filter (\<lambda>b. use b = p) cfg) + (if p = ''@now/build-utils'' then 1 else 0))
       \<and> count_list (snd (installBuilders bc dir cfg)) (Install dir ''@now/static'') = 0"
proof -
  from assms have ok: "\<And>q. install bc dir q = None" by simp
  have a: "installBuilders bc dir cfg =
           (None, map (Install dir) (filter (\<lambda>p. p \<noteq> ''@now/static'') (map use cfg))
                  @ [Install dir ''@now/build-utils''])"
    by (rule installBuilders_all_ok) (rule ok)
  have e: "snd (installBuilders bc dir cfg) = map (Install dir) (builders cfg)"
    by (simp add: installBuilders_def install_each_all_ok [of bc dir, OF ok])
  have b: "count_list (snd (installBuilders bc dir cfg)) (Install dir p)
            = length (filter (\<lambda>b. use b = p) cfg) + (if p = ''@now/build-utils'' then 1 else 0)"
    if "p \<noteq> ''@now/static''"
    unfolding e count_list_map_Install using that by (rule count_builders)
  have c: "count_list (snd (installBuilders bc dir cfg)) (Install dir ''@now/static'') = 0"
    unfolding e count_list_map_Install using builders_static [of cfg] by (simp add: count_list_0_iff)
  from a b c show ?thesis by blast
qed

text \<open>The amended claim C3 at a configuration of three rules, two of which name
  \<open>@now/node\<close> and one \<open>@now/static\<close>.\<close>

theorem C3_install_once_per_rule_witness:
  "installBuilders cache_ok ''/cache'' [rule_node_a, rule_static, rule_node_b] =
     (None, [Install ''/cache'' ''@now/node'', Install ''/cache'' ''@now/node'',
             Install ''/cache'' ''@now/build-utils''])
   \<and> count_list (snd (installBuilders cache_ok ''/cache'' [rule_node_a, rule_static, rule_node_b]))
        (Install ''/cache'' ''@now/node'') = 2
   \<and> count_list (snd (installBuilders cache_ok ''/cache'' [rule_node_a, rule_static, rule_node_b]))
        (Install ''/cache'' ''@now/static'') = 0"
proof -
  have h: "\<forall>q. install cache_ok ''/cache'' q = None" by (simp add: cache_ok_def)
  from C3_install_once_per_rule [OF h, of "[rule_node_a, rule_static, rule_node_b]" "''@now/node''"]
  show ?thesis by (simp add: rule_node_a_def rule_node_b_def rule_static_def)
qed

text \<open>Claim C3 as stated fails: two build rules that use \<open>@now/node\<close> make \<open>installBuilders\<close>
  call \<open>builderCache.install\<close> for \<open>@now/node\<close> twice.\<close>

theorem C3_counterexample:
  "count_list (snd (installBuilders cache_ok ''/cache'' [rule_node_a, rule_node_b]))
     (Install ''/cache'' ''@now/node'') = 2"
  by (simp add: installBuilders_def builders_def cache_ok_def rule_node_a_def rule_node_b_def)

text \<open>
  Claim C10. The list of plugins to install is the plugins of the build rules, in the order of
  the rules and with every \<open>@now/static\<close> left out, followed by \<open>@now/build-utils\<close>: it always
  ends with \<open>@now/build-utils\<close> (for the empty configuration it is that plugin alone), it never
  holds \<open>@now/static\<close>, and it holds every other plugin that a rule names, as often as the
  rules name it. No installation of \<open>@now/static\<close> is ever requested; the installations
  requested are a beginning of the list, and when they succeed they are the whole list,
  \<open>@now/build-utils\<close> last.
\<close>

theorem C10_install_list:
  "last (builders cfg) = ''@now/build-utils''
   \<and> builders [] = [''@now/build-utils'']
   \<and> butlast (builders cfg) = filter (\<lambda>p. p \<noteq> ''@now/static'') (map use cfg)
   \<and> (p \<in> set (builders cfg) \<longleftrightarrow>
        p = ''@now/build-utils'' \<or> (p \<noteq> ''@now/static'' \<and> p \<in> use ` set cfg))
   \<and> (p \<noteq> ''@now/static'' \<longrightarrow>
        count_list (builders cfg) p
        = length (filter (\<lambda>b. use b = p) cfg) + (if p = ''@now/build-utils'' then 1 else 0))
   \<and> ''@now/static'' \<notin> set (builders cfg)
   \<and> Install dir ''@now/static'' \<notin> set (snd (installBuilders bc dir cfg))
   \<and> (\<exists>k. snd (installBuilders bc dir cfg) = take k (map (Install dir) (builders cfg)))
   \<and> ((\<forall>q. install bc dir q = None) \<longrightarrow>
        installBuilders bc dir cfg = (None, map (Install dir) (builders cfg))
        \<and> last (snd (installBuilders bc dir cfg)) = Install dir ''@now/build-utils'')"
proof -
  have a: "last (builders cfg) = ''@now/build-utils''" "builders [] = [''@now/build-utils'']"
    by (simp_all add: builders_def)
  have b: "''@now/static'' \<notin> set (builders cfg)" by (rule builders_static)
  have c: "Install dir ''@now/static'' \<notin> set (snd (installBuilders bc dir cfg))"
    using install_each_events_subset [of bc dir "builders cfg"] b
    by (auto simp: installBuilders_def)
  have d: "installBuilders bc dir cfg = (None, map (Install dir) (builders cfg))
        \<and> last (snd (installBuilders bc dir cfg)) = Install dir ''@now/build-utils''"
    if "\<forall>q. install bc dir q = None"
    using that by (simp add: installBuilders_def install_each_all_ok builders_def)
  have e: "\<exists>k. snd (installBuilders bc dir cfg) = take k (map (Install dir) (builders cfg))"
    unfolding installBuilders_def by (rule install_each_prefix)
  have f: "p \<noteq> ''@now/static'' \<longrightarrow>
        count_list (builders cfg) p
        = length (filter (\<lambda>b. use b = p) cfg) + (if p = ''@now/build-utils'' then 1 else 0)"
    using count_builders [of p cfg] by blast
  have g: "(\<forall>q. install bc dir q = None) \<longrightarrow>
        installBuilders bc dir cfg = (None, map (Install dir) (builders cfg))
        \<and> last (snd (installBuilders bc dir cfg)) = Install dir ''@now/build-utils''"
    using d by blast
  show ?thesis
    by (intro conjI a builders_butlast builders_member f b c e g)
qed

text \<open>Claim C10 at a configuration of three rules, the second of which uses \<open>@now/static\<close>,
  at one whose only rule uses \<open>@now/static\<close>, and at the empty one.\<close>

theorem C10_install_list_witness:
  "builders [rule_node_a, rule_static, rule_page] = [''@now/node'', ''@now/build-utils'']
   \<and> installBuilders cache_ok ''/cache'' [rule_node_a, rule_static, rule_page] =
       (None, [Install ''/cache'' ''@now/node'', Install ''/cache'' ''@now/build-utils''])
   \<and> installBuilders cache_ok ''/cache'' [rule_static] = (None, [Install ''/cache'' ''@now/build-utils''])
   \<and> installBuilders cache_ok ''/cache'' [] = (None, [Install ''/cache'' ''@now/build-utils''])"
proof -
  have h: "\<forall>q. install cache_ok ''/cache'' q = None" by (simp add: cache_ok_def)
  let ?cfg = "[rule_node_a, rule_static, rule_page]"
  from C10_install_list [of ?cfg "''@now/node''" "''/cache''" cache_ok]
  have l: "last (builders ?cfg) = ''@now/build-utils''"
    and bl: "butlast (builders ?cfg) = filter (\<lambda>p. p \<noteq> ''@now/static'') (map use ?cfg)"
    and i: "installBuilders cache_ok ''/cache'' ?cfg = (None, map (Install ''/cache'') (builders ?cfg))"
    using h by blast+
  have ne: "builders ?cfg \<noteq> []" by (simp add: builders_def)
  have "builders ?cfg = butlast (builders ?cfg) @ [last (builders ?cfg)]"
    using ne by simp
  then have 1: "builders ?cfg = [''@now/node'', ''@now/build-utils'']"
    unfolding l bl by (simp add: rule_node_a_def rule_static_def rule_page_def)
  have 2: "installBuilders cache_ok ''/cache'' ?cfg =
       (None, [Install ''/cache'' ''@now/node'', Install ''/cache'' ''@now/build-utils''])"
    unfolding i 1 by simp
  from C10_install_list [of "[rule_static]" "''@now/node''" "''/cache''" cache_ok] h
  have "installBuilders cache_ok ''/cache'' [rule_static] = (None, map (Install ''/cache'') (builders [rule_static]))"
    by blast
  moreover from C10_install_list [of "[rule_static]" "''@now/node''" "''/cache''" cache_ok]
  have "builders [rule_static] = butlast (builders [rule_static]) @ [last (builders [rule_static])]"
    by (simp add: builders_def)
  ultimately have 3: "installBuilders cache_ok ''/cache'' [rule_static] = (None, [Install ''/cache'' ''@now/build-utils''])"
    by (simp add: builders_def rule_static_def)
  from C10_install_list [of "[]" "''@now/node''" "''/cache''" cache_ok] h
  have 4: "installBuilders cache_ok ''/cache'' [] = (None, [Install ''/cache'' ''@now/build-utils''])"
    by simp
  from 1 2 3 4 show ?thesis by blast
qed

section \<open>Routing\<close>

lemma rewrite_no_match:
  "\<forall>r\<in>set rules. exec rx (''^'' @ route_src r @ ''$'') q = RxNoMatch \<Longrightarrow> rewrite rx rules q = Inr q"
  by (induction rules) (auto simp: js_replace_def split: option.splits)

lemma match_rules_no_match:
  "\<forall>r\<in>set rules. exec rx (route_src r) (rr_dest acc) = RxNoMatch \<Longrightarrow>
   match_rules rx isurl m rules acc = acc"
  by (induction rules) auto

text \<open>
  Claim C1. Let no rule's pattern match the request path (the path without its leading slash,
  as both servers and the specification's router take it). Then the \<open>reduce\<close> of \<open>route\<close> in
  the first server returns that path unchanged, with or without a route list; and the router
  of the specification returns it unchanged with status 200, no headers and no matched rule,
  which the defaults of \<open>serveProjectAsNowV2\<close> read as status 200 and no header to set.
\<close>

theorem C1_passthrough:
  assumes "\<forall>r\<in>set rules. exec rx (''^'' @ route_src r @ ''$'') (strip_leading_slash p) = RxNoMatch"
    and "\<forall>r\<in>set rules. exec rx (route_src r) (strip_leading_slash p) = RxNoMatch"
  shows "reqDest rx p (Some rules) = Inr (strip_leading_slash p)
       \<and> reqDest rx p None = Inr (strip_leading_slash p)
       \<and> router_match rx isurl p m rules =
           \<lparr> rr_dest = strip_leading_slash p, rr_status = Some 200, rr_headers = Some [],
             uri_args = None, matched_route = None \<rparr>
       \<and> routed_status (router_match rx isurl p m rules) = 200
       \<and> routed_headers (router_match rx isurl p m rules) = []"
proof -
  have a: "reqDest rx p (Some rules) = Inr (strip_leading_slash p)"
    using assms(1) by (simp add: reqDest_def rewrite_no_match)
  have b: "router_match rx isurl p m rules =
           \<lparr> rr_dest = strip_leading_slash p, rr_status = Some 200, rr_headers = Some [],
             uri_args = None, matched_route = None \<rparr>"
    unfolding router_match_def using assms(2) by (intro match_rules_no_match) simp
  show ?thesis using a b by (simp add: reqDest_def routed_status_def routed_headers_def)
qed

text \<open>Claim C1 at the request path \<open>/other\<close> and the one rule that sends \<open>old\<close> to \<open>new\<close>.\<close>

theorem C1_passthrough_witness:
  "reqDest literal_regexp ''/other'' (Some [route_old_new]) = Inr ''other''
   \<and> router_match literal_regexp is_absolute_url ''/other'' ''GET'' [route_old_new] =
       \<lparr> rr_dest = ''other'', rr_status = Some 200, rr_headers = Some [],
         uri_args = None, matched_route = None \<rparr>
   \<and> routed_status (router_match literal_regexp is_absolute_url ''/other'' ''GET'' [route_old_new]) = 200
   \<and> routed_headers (router_match literal_regexp is_absolute_url ''/other'' ''GET'' [route_old_new]) = []"
proof -
  have h1: "\<forall>r\<in>set [route_old_new].
              exec literal_regexp (''^'' @ route_src r @ ''$'') (strip_leading_slash ''/other'') = RxNoMatch"
    by (simp add: literal_regexp_def route_old_new_def)
  have h2: "\<forall>r\<in>set [route_old_new].
              exec literal_regexp (route_src r) (strip_leading_slash ''/other'') = RxNoMatch"
    by (simp add: literal_regexp_def route_old_new_def)
  from C1_passthrough [OF h1 h2, of is_absolute_url "''GET''"] show ?thesis
    by (simp add: routed_status_def routed_headers_def)
qed

text \<open>The same rule does rewrite the path it matches.\<close>

lemma reqDest_rewrites:
  "reqDest literal_regexp ''/old'' (Some [route_old_new]) = Inr ''new''"
  by (simp add: reqDest_def js_replace_def literal_regexp_def route_old_new_def)

section \<open>Resolving a destination\<close>








text \<open>An extension with a character outside \<open>\w\<close> is no index suffix, and neither is
  \<open>index.\<close> without an extension.\<close>

lemma strip_index_not_word:
  "strip_index ''api/index.j-s'' = ''api/index.j-s'' \<and> strip_index ''api/index.'' = ''api/index.''
   \<and> strip_index ''api/index.js/'' = ''api/index.js/''"
  by (simp add: index_here_def index_tail_def is_word_char_def)











text \<open>
  Claim C9. The index fallback also reaches keys without a path separator: in the second
  server the destination \<open>/foo\<close> resolves to the entry keyed \<open>fooindex.js\<close>, and to the one
  keyed \<open>fooindex\<close>, since the pattern strips \<open>index.js\<close> and \<open>index\<close> from them; in the first
  server the request \<open>/foo\<close> is routed to the entry keyed \<open>fooindex.js\<close>, the second key that
  \<open>matchHandler\<close> tries.
\<close>

theorem C9_index_without_separator:
  "strip_index ''fooindex.js'' = ''foo''
   \<and> resolveDest [(''fooindex.js'', lambda_output 1)] ''/foo'' = Some (lambda_output 1)
   \<and> resolveDest [(''fooindex'', lambda_output 1)] ''/foo'' = Some (lambda_output 1)
   \<and> matchHandler [(''fooindex.js'', lambda_output 1)] ''foo'' = Some (lambda_output 1)
   \<and> route rx \<lparr> url = Some ''/foo'', req_method = Some ''GET'', req_headers = [], req_body = [] \<rparr>
         [(''fooindex.js'', lambda_output 1)] None = Inr (lambda_output 1)"
  by (simp add: resolveDest_def matchHandler_def property_def inherited_def route_def reqDest_def
        strip_trailing_slash_def index_here_def index_tail_def is_word_char_def)

section \<open>The busy server\<close>

lemma handle_all_fixed:
  assumes "\<And>req. h s req = (s, notice, [])"
  shows "handle_all h s reqs = (s, map (\<lambda>req. notice) reqs, [])"
  using assms by (induction reqs) simp_all

text \<open>
  Claim C4. While the status is \<open>busy\<close>, the handler of either server answers a request at
  once with the notice \<open>[busy] \<close>\<^emph>\<open>reason\<close>\<open>...\<close>, leaves the server as it is and reaches no
  collaborator: the trace is empty, so nothing is installed or built. The same holds for any
  run of requests that arrive while the status is \<open>busy\<close>.
\<close>

theorem C4_busy_gating:
  assumes "status s = busy" and "status s1 = busy"
  shows "devServerHandler md s req =
           (s, \<lparr> statusCode = 200, headers = [],
                 ended = Some (End (Text (''[busy] '' @ statusMessage s @ ''...''))) \<rparr>, [])
       \<and> handle_all (devServerHandler md) s reqs =
           (s, map (\<lambda>req. \<lparr> statusCode = 200, headers = [],
                 ended = Some (End (Text (''[busy] '' @ statusMessage s @ ''...''))) \<rparr>) reqs, [])
       \<and> devServerHandler_v1 pf bc s1 req =
           (s1, \<lparr> statusCode = 200, headers = [],
                  ended = Some (End (Text (''[busy] '' @ statusMessage s1 @ ''...''))) \<rparr>, [])
       \<and> handle_all (devServerHandler_v1 pf bc) s1 reqs =
           (s1, map (\<lambda>req. \<lparr> statusCode = 200, headers = [],
                  ended = Some (End (Text (''[busy] '' @ statusMessage s1 @ ''...''))) \<rparr>) reqs, [])"
proof -
  have a: "devServerHandler md s r =
           (s, \<lparr> statusCode = 200, headers = [],
                 ended = Some (End (Text (''[busy] '' @ statusMessage s @ ''...''))) \<rparr>, [])" for r
    using assms(1) by (simp add: devServerHandler_def res_end_def new_response_def)
  have b: "devServerHandler_v1 pf bc s1 r =
           (s1, \<lparr> statusCode = 200, headers = [],
                  ended = Some (End (Text (''[busy] '' @ statusMessage s1 @ ''...''))) \<rparr>, [])" for r
    using assms(2) by (simp add: devServerHandler_v1_def res_end_def new_response_def)
  show ?thesis
    using a b handle_all_fixed [of "devServerHandler md" s, OF a]
      handle_all_fixed [of "devServerHandler_v1 pf bc" s1, OF b]
    by simp
qed

text \<open>Claim C4 at two requests to the second server while it is building, and at one to
  the first.\<close>

theorem C4_busy_gating_witness:
  "handle_all (devServerHandler (project_modules config_ok)) building
       [get_request ''/api/'', post_request ''/api/'' ''hello''] =
     (building,
      [\<lparr> statusCode = 200, headers = [], ended = Some (End (Text ''[busy] building...'')) \<rparr>,
       \<lparr> statusCode = 200, headers = [], ended = Some (End (Text ''[busy] building...'')) \<rparr>],
      [])
   \<and> devServerHandler_v1 project_platform cache_ok building_v1 (get_request ''/api/'') =
     (building_v1,
      \<lparr> statusCode = 200, headers = [], ended = Some (End (Text ''[busy] building lambdas...'')) \<rparr>,
      [])"
proof -
  have h: "status building = busy" "status building_v1 = busy"
    by (simp_all add: building_def building_v1_def)
  have m: "statusMessage building = ''building''" "statusMessage building_v1 = ''building lambdas''"
    by (simp_all add: building_def building_v1_def)
  from C4_busy_gating [OF h, of "project_modules config_ok" "get_request ''/api/''"
      "[get_request ''/api/'', post_request ''/api/'' ''hello'']" project_platform cache_ok]
  show ?thesis by (simp only: m list.map append.simps)
qed

section \<open>A build that fails\<close>






















text \<open>A run in which the first rule is built and merged and the builder of the second throws.\<close>

lemma buildLambdas_example:
  "buildLambdas project_platform cache_node_fails ''/cache'' ''/project'' [rule_page, rule_node_a] =
     (Inl (NowError ''NOW_BUILDER_FAILURE'' ''Failed building api/a.js with @now/node'' ''cannot compile''),
      [Build ''@now/static'' ''index.html'', Build ''@now/node'' ''api/a.js''])"
  by (simp add: buildLambdas_def build_rule_def builder_failure_def project_platform_def
      cache_node_fails_def project_files_def rule_page_def rule_node_a_def static_builder_def
      failing_builder_def spread_def Let_def)


lemma router_no_routes:
  "router_match rx isurl p m [] =
     \<lparr> rr_dest = strip_leading_slash p, rr_status = Some 200, rr_headers = Some [],
       uri_args = None, matched_route = None \<rparr>"
  by (simp add: router_match_def)



section \<open>The validation of the configuration\<close>

lemma is_secret_iff: "is_secret v \<longleftrightarrow> (\<exists>rest. v = CHR ''@'' # rest)"
  by (cases v) auto

lemma validate_error_rethrown:
  "validateNowConfig c = Inl e \<Longrightarrow> rethrow_unless_missing e = Inl e"
  by (auto simp: validateNowConfig_def rethrow_unless_missing_def unsupported_version_def
      unsupported_secret_def split: if_splits)

lemma start_invalid:
  assumes "getNowJson md (cwd s) = Inl e"
  shows "fst (start md s port) \<noteq> None \<and> snd (start md s port) = opened md port s
       \<and> (listen md port = None \<longrightarrow> start md s port = (Some e, s\<lparr> listening := Some port \<rparr>))"
  using assms by (auto simp: start_def opened_def split: option.splits)

lemma opened_fields:
  "status (opened md port s) = status s \<and> statusMessage (opened md port s) = statusMessage s
   \<and> assets (opened md port s) = assets s \<and> cwd (opened md port s) = cwd s"
  by (simp add: opened_def split: option.splits)

lemma start_invalid_no_build:
  assumes "getNowJson md (cwd s) = Inl e"
  shows "start (md\<lparr> buildUserProject := bu \<rparr>) s port = start md s port"
proof -
  have "getNowJson (md\<lparr> buildUserProject := bu \<rparr>) (cwd s) = Inl e"
    using assms by (simp add: getNowJson_def)
  with assms show ?thesis by (simp add: start_def opened_def Let_def split: option.splits)
qed

lemma validate_version: "version c \<noteq> 2 \<Longrightarrow>
      validateNowConfig c = Inl unsupported_version"
  by (simp add: validateNowConfig_def)

lemma validate_secret: "version c = 2 \<Longrightarrow> hasSecretEnv c \<Longrightarrow>
      validateNowConfig c = Inl unsupported_secret"
  by (simp add: validateNowConfig_def)

lemma validate_ok: "version c = 2 \<Longrightarrow> \<not> hasSecretEnv c \<Longrightarrow> validateNowConfig c = Inr ()"
  by (simp add: validateNowConfig_def)

lemma getNowJson_valid:
  "validateNowConfig c = Inr () \<Longrightarrow> readNowJson md dir = Inr c \<Longrightarrow> getNowJson md dir = Inr (Some c)"
  by (simp add: getNowJson_def)

lemma getNowJson_invalid:
  "validateNowConfig c = Inl e \<Longrightarrow> readNowJson md dir = Inr c \<Longrightarrow> getNowJson md dir = Inl e"
  by (simp add: getNowJson_def validate_error_rethrown)

lemma hasSecretEnv_iff:
  "hasSecretEnv c \<longleftrightarrow>
        (\<exists>v rest. v = CHR ''@'' # rest
           \<and> (v \<in> set (object_values (env c))
              \<or> (\<exists>buildConfig. build c = Some buildConfig
                    \<and> v \<in> set (object_values (build_env buildConfig)))))"
  by (auto simp: hasSecretEnv_def list_ex_iff is_secret_iff split: option.splits)

lemma new_server_rejected:
  assumes "getNowJson md dir = Inl e" and "listen md port = None"
  shows "start md (new_DevServer dir dbg) port =
           (Some e, \<lparr> cwd = dir, status = busy, statusMessage = [], debug = dbg, assets = [],
                      listening = Some port \<rparr>)"
  using assms by (simp add: start_def opened_def new_DevServer_def)

lemma answer_busy:
  "answer md \<lparr> cwd = dir, status = busy, statusMessage = msg, debug = dbg, assets = built,
               listening = Some port \<rparr> port req =
     Some (\<lparr> cwd = dir, status = busy, statusMessage = msg, debug = dbg, assets = built,
             listening = Some port \<rparr>,
           \<lparr> statusCode = 200, headers = [], ended = Some (End (Text (''[busy] '' @ msg @ ''...''))) \<rparr>,
           [])"
  by (simp add: answer_def devServerHandler_def res_end_def new_response_def)

text \<open>
  Claim C7, as amended. \<open>validateNowConfig\<close> throws for a configuration whose version is not
  2, and for one of version 2 with a secret: a value of \<open>env\<close> or of the \<open>env\<close> of \<open>build\<close> that
  begins with \<open>@\<close>. It passes a configuration of version 2 without such a value, which
  \<open>getNowJson\<close> then returns. When the file holds a configuration that does not pass,
  \<open>getNowJson\<close> throws the error of the validation and so does \<open>start\<close> (that very error when
  the port opens): \<open>start\<close> runs no build, whatever the builder is, and leaves the status and
  the published outputs as they were, so it never sets the status to \<open>idle\<close>. But it opens
  the port, unless \<open>listen\<close> fails: a new server is then busy and listening, and it answers
  every request to the port with the busy notice.
\<close>

theorem C7_config_validation:
  "(version c \<noteq> 2 \<longrightarrow>
      validateNowConfig c = Inl unsupported_version)
   \<and> (version c = 2 \<and> hasSecretEnv c \<longrightarrow>
      validateNowConfig c = Inl unsupported_secret)
   \<and> (version c = 2 \<and> \<not> hasSecretEnv c \<longrightarrow>
      validateNowConfig c = Inr ()
      \<and> (readNowJson md (cwd s) = Inr c \<longrightarrow> getNowJson md (cwd s) = Inr (Some c)))
   \<and> (hasSecretEnv c \<longleftrightarrow>
        (\<exists>v rest. v = CHR ''@'' # rest
           \<and> (v \<in> set (object_values (env c))
              \<or> (\<exists>buildConfig. build c = Some buildConfig
                    \<and> v \<in> set (object_values (build_env buildConfig))))))
   \<and> (readNowJson md (cwd s) = Inr c \<and> (version c \<noteq> 2 \<or> hasSecretEnv c) \<longrightarrow>
        (\<exists>e. validateNowConfig c = Inl e \<and> getNowJson md (cwd s) = Inl e
            \<and> (listen md port = None \<longrightarrow>
                 start md s port = (Some e, s\<lparr> listening := Some port \<rparr>)))
        \<and> fst (start md s port) \<noteq> None
        \<and> snd (start md s port) = opened md port s
        \<and> status (snd (start md s port)) = status s
        \<and> assets (snd (start md s port)) = assets s
        \<and> start (md\<lparr> buildUserProject := bu \<rparr>) s port = start md s port)
   \<and> (readNowJson md dir = Inr c \<and> (version c \<noteq> 2 \<or> hasSecretEnv c) \<and> listen md port = None \<longrightarrow>
        status (snd (start md (new_DevServer dir dbg) port)) = busy
        \<and> listening (snd (start md (new_DevServer dir dbg) port)) = Some port
        \<and> answer md (snd (start md (new_DevServer dir dbg) port)) port req =
            Some (snd (start md (new_DevServer dir dbg) port),
                  \<lparr> statusCode = 200, headers = [], ended = Some (End (Text ''[busy] ...'')) \<rparr>,
                  []))"
proof -
  have a: "version c \<noteq> 2 \<longrightarrow>
      validateNowConfig c = Inl unsupported_version"
    by (simp add: validate_version)
  have b: "version c = 2 \<and> hasSecretEnv c \<longrightarrow>
      validateNowConfig c = Inl unsupported_secret"
    by (simp add: validate_secret)
  have c: "version c = 2 \<and> \<not> hasSecretEnv c \<longrightarrow>
      validateNowConfig c = Inr ()
      \<and> (readNowJson md (cwd s) = Inr c \<longrightarrow> getNowJson md (cwd s) = Inr (Some c))"
    by (simp add: validate_ok getNowJson_valid)
  have d: "readNowJson md (cwd s) = Inr c \<and> (version c \<noteq> 2 \<or> hasSecretEnv c) \<longrightarrow>
        (\<exists>e. validateNowConfig c = Inl e \<and> getNowJson md (cwd s) = Inl e
            \<and> (listen md port = None \<longrightarrow>
                 start md s port = (Some e, s\<lparr> listening := Some port \<rparr>)))
        \<and> fst (start md s port) \<noteq> None
        \<and> snd (start md s port) = opened md port s
        \<and> status (snd (start md s port)) = status s
        \<and> assets (snd (start md s port)) = assets s
        \<and> start (md\<lparr> buildUserProject := bu \<rparr>) s port = start md s port"
  proof (rule impI)
    assume h: "readNowJson md (cwd s) = Inr c \<and> (version c \<noteq> 2 \<or> hasSecretEnv c)"
    then have "\<exists>e. validateNowConfig c = Inl e"
      by (auto simp: validateNowConfig_def)
    then obtain e where e: "validateNowConfig c = Inl e" ..
    with h have g: "getNowJson md (cwd s) = Inl e"
      by (simp add: getNowJson_invalid)
    note i = start_invalid [OF g, of port]
    have 1: "\<exists>e. validateNowConfig c = Inl e \<and> getNowJson md (cwd s) = Inl e
            \<and> (listen md port = None \<longrightarrow>
                 start md s port = (Some e, s\<lparr> listening := Some port \<rparr>))"
      using e g i by (intro exI [of _ e]) simp
    have 2: "fst (start md s port) \<noteq> None" using i by simp
    have 3: "snd (start md s port) = opened md port s" using i by simp
    have 4: "status (snd (start md s port)) = status s" unfolding 3 by (simp add: opened_fields)
    have 5: "assets (snd (start md s port)) = assets s" unfolding 3 by (simp add: opened_fields)
    have 6: "start (md\<lparr> buildUserProject := bu \<rparr>) s port = start md s port"
      by (rule start_invalid_no_build [OF g])
    show "(\<exists>e. validateNowConfig c = Inl e \<and> getNowJson md (cwd s) = Inl e
            \<and> (listen md port = None \<longrightarrow>
                 start md s port = (Some e, s\<lparr> listening := Some port \<rparr>)))
        \<and> fst (start md s port) \<noteq> None
        \<and> snd (start md s port) = opened md port s
        \<and> status (snd (start md s port)) = status s
        \<and> assets (snd (start md s port)) = assets s
        \<and> start (md\<lparr> buildUserProject := bu \<rparr>) s port = start md s port"
      by (intro conjI 1 2 3 4 5 6)
  qed
  have e: "readNowJson md dir = Inr c \<and> (version c \<noteq> 2 \<or> hasSecretEnv c) \<and> listen md port = None \<longrightarrow>
        status (snd (start md (new_DevServer dir dbg) port)) = busy
        \<and> listening (snd (start md (new_DevServer dir dbg) port)) = Some port
        \<and> answer md (snd (start md (new_DevServer dir dbg) port)) port req =
            Some (snd (start md (new_DevServer dir dbg) port),
                  \<lparr> statusCode = 200, headers = [], ended = Some (End (Text ''[busy] ...'')) \<rparr>,
                  [])"
  proof (rule impI)
    assume h: "readNowJson md dir = Inr c \<and> (version c \<noteq> 2 \<or> hasSecretEnv c) \<and> listen md port = None"
    then have "\<exists>e. validateNowConfig c = Inl e"
      by (auto simp: validateNowConfig_def)
    then obtain e where e: "validateNowConfig c = Inl e" ..
    with h have g: "getNowJson md dir = Inl e"
      by (simp add: getNowJson_invalid)
    from h have l: "listen md port = None" by simp
    note n = new_server_rejected [OF g l, of dbg]
    show "status (snd (start md (new_DevServer dir dbg) port)) = busy
        \<and> listening (snd (start md (new_DevServer dir dbg) port)) = Some port
        \<and> answer md (snd (start md (new_DevServer dir dbg) port)) port req =
            Some (snd (start md (new_DevServer dir dbg) port),
                  \<lparr> statusCode = 200, headers = [], ended = Some (End (Text ''[busy] ...'')) \<rparr>,
                  [])"
      unfolding n using answer_busy [of md dir "[]" dbg "[]" port req] by simp
  qed
  show ?thesis by (intro conjI a b c d e hasSecretEnv_iff)
qed

text \<open>The amended claim C7 at a configuration of version 1, at two with a secret, and at one
  that passes.\<close>

theorem C7_config_validation_witness:
  "validateNowConfig config_version_1 = Inl unsupported_version
   \<and> validateNowConfig config_secret = Inl unsupported_secret
   \<and> validateNowConfig config_build_secret = Inl unsupported_secret
   \<and> validateNowConfig config_ok = Inr ()
   \<and> getNowJson (project_modules config_ok) (cwd building) = Inr (Some config_ok)
   \<and> fst (start (project_modules config_secret) building 3000) \<noteq> None
   \<and> status (snd (start (project_modules config_secret) building 3000)) = status building
   \<and> assets (snd (start (project_modules config_secret) building 3000)) = assets building
   \<and> start ((project_modules config_secret)
               \<lparr> buildUserProject := (\<lambda>nowJson dir. (Inr two_indexes, Some (idle, []))) \<rparr>)
        building 3000
       = start (project_modules config_secret) building 3000
   \<and> status (snd (start (project_modules config_version_1) (new_DevServer ''/project'' False) 3000)) = busy
   \<and> listening (snd (start (project_modules config_version_1) (new_DevServer ''/project'' False) 3000))
       = Some 3000
   \<and> answer (project_modules config_version_1)
        (snd (start (project_modules config_version_1) (new_DevServer ''/project'' False) 3000)) 3000
        (get_request ''/'') =
       Some (snd (start (project_modules config_version_1) (new_DevServer ''/project'' False) 3000),
             \<lparr> statusCode = 200, headers = [], ended = Some (End (Text ''[busy] ...'')) \<rparr>,
             [])"
proof -
  have v: "version config_version_1 \<noteq> 2" "version config_secret = 2 \<and> hasSecretEnv config_secret"
      "version config_build_secret = 2 \<and> hasSecretEnv config_build_secret"
      "version config_ok = 2 \<and> \<not> hasSecretEnv config_ok"
    by (simp_all add: config_version_1_def config_secret_def config_build_secret_def config_ok_def
          hasSecretEnv_def)
  note a = C7_config_validation [of config_version_1 "project_modules config_version_1" building 3000
      "\<lambda>nowJson dir. (Inr two_indexes, Some (idle, []))" "''/project''" False "get_request ''/''"]
  note b = C7_config_validation [of config_secret "project_modules config_secret" building 3000
      "\<lambda>nowJson dir. (Inr two_indexes, Some (idle, []))" "''/project''" False "get_request ''/''"]
  note c = C7_config_validation [of config_build_secret "project_modules config_build_secret" building 3000
      "\<lambda>nowJson dir. (Inr two_indexes, Some (idle, []))" "''/project''" False "get_request ''/''"]
  note d = C7_config_validation [of config_ok "project_modules config_ok" building 3000
      "\<lambda>nowJson dir. (Inr two_indexes, Some (idle, []))" "''/project''" False "get_request ''/''"]
  note 1 = a [THEN conjunct1, THEN mp, OF v(1)]
  note 2 = b [THEN conjunct2, THEN conjunct1, THEN mp, OF v(2)]
  note 3 = c [THEN conjunct2, THEN conjunct1, THEN mp, OF v(3)]
  note ok = d [THEN conjunct2, THEN conjunct2, THEN conjunct1, THEN mp, OF v(4)]
  note 4 = ok [THEN conjunct1]
  have r0: "readNowJson (project_modules config_ok) (cwd building) = Inr config_ok"
    by (simp add: project_modules_def)
  note 5 = ok [THEN conjunct2, THEN mp, OF r0]
  have r: "readNowJson (project_modules config_secret) (cwd building) = Inr config_secret
           \<and> (version config_secret \<noteq> 2 \<or> hasSecretEnv config_secret)"
    using v(2) by (simp add: project_modules_def)
  note rej = b [THEN conjunct2, THEN conjunct2, THEN conjunct2, THEN conjunct2, THEN conjunct1,
      THEN mp, OF r]
  note 6 = rej [THEN conjunct2, THEN conjunct1]
  note 7 = rej [THEN conjunct2, THEN conjunct2, THEN conjunct2, THEN conjunct1]
  note 8 = rej [THEN conjunct2, THEN conjunct2, THEN conjunct2, THEN conjunct2, THEN conjunct1]
  note 9 = rej [THEN conjunct2, THEN conjunct2, THEN conjunct2, THEN conjunct2, THEN conjunct2]
  have r1: "readNowJson (project_modules config_version_1) ''/project'' = Inr config_version_1
           \<and> (version config_version_1 \<noteq> 2 \<or> hasSecretEnv config_version_1)
           \<and> listen (project_modules config_version_1) 3000 = None"
    using v(1) by (simp add: project_modules_def)
  note new = a [THEN conjunct2, THEN conjunct2, THEN conjunct2, THEN conjunct2, THEN conjunct2,
      THEN mp, OF r1]
  note 10 = new [THEN conjunct1]
  note 11 = new [THEN conjunct2, THEN conjunct1]
  note 12 = new [THEN conjunct2, THEN conjunct2]
  show ?thesis by (intro conjI 1 2 3 4 5 6 7 8 9 10 11 12)
qed

text \<open>
  Claim C7 as stated fails: the server does start to listen. With a secret in the
  configuration \<open>start\<close> throws the error of the validation, but the port is open, and a
  request to it is answered, with the status 200 and the busy notice.
\<close>

theorem C7_counterexample:
  "start (project_modules config_secret) (new_DevServer ''/project'' False) 3000 =
     (Some unsupported_secret,
      \<lparr> cwd = ''/project'', status = busy, statusMessage = [], debug = False, assets = [],
        listening = Some 3000 \<rparr>)
   \<and> listening (snd (start (project_modules config_secret) (new_DevServer ''/project'' False) 3000))
       = Some 3000
   \<and> answer (project_modules config_secret)
        (snd (start (project_modules config_secret) (new_DevServer ''/project'' False) 3000)) 3000
        (get_request ''/'') =
       Some (snd (start (project_modules config_secret) (new_DevServer ''/project'' False) 3000),
             \<lparr> statusCode = 200, headers = [], ended = Some (End (Text ''[busy] ...'')) \<rparr>,
             [])"
proof -
  let ?md = "project_modules config_secret"
  have v: "validateNowConfig config_secret = Inl unsupported_secret"
    by (simp add: validateNowConfig_def hasSecretEnv_def config_secret_def config_ok_def)
  have g: "getNowJson ?md ''/project'' = Inl unsupported_secret"
    using v by (intro getNowJson_invalid) (simp_all add: project_modules_def)
  have l: "listen ?md 3000 = None" by (simp add: project_modules_def)
  note n = new_server_rejected [OF g l, of False]
  show ?thesis
    unfolding n using answer_busy [of ?md "''/project''" "[]" False "[]" 3000 "get_request ''/''"]
    by simp
qed

section \<open>Redirections\<close>

lemma setHeaders_fold:
  "setHeaders hs res = res\<lparr> headers := fold (\<lambda>(name, v). set_header name v) hs (headers res) \<rparr>"
  unfolding setHeaders_def
  by (induction hs arbitrary: res) (auto simp: setHeader_def)

text \<open>
  Claim C8, as amended. When the routing result carries the status 301, 302 or 303 and its
  destination is not an absolute URL, \<open>serveProjectAsNowV2\<close> ends the response without a
  body, with the headers of the routing result set on it and nothing else changed, and its
  trace is empty: no build output is looked up and no function is invoked. So does the handler
  of a server that is not busy.
\<close>

theorem C8_redirect:
  assumes "devRouter md (url req) (routes nowJson) = r"
    and "routed_status r \<in> {301, 302, 303}"
    and "\<not> isURL md (rr_dest r)"
  shows "serveProjectAsNowV2 md s req res dir nowJson =
           (Inr (res\<lparr> headers := fold (\<lambda>(name, v). set_header name v) (routed_headers r) (headers res),
                     ended := Some (End NoBody) \<rparr>), [])
       \<and> (status s \<noteq> busy \<and> getNowJson md (cwd s) = Inr (Some nowJson) \<longrightarrow>
            devServerHandler md s req =
              (setStatusIdle s,
               \<lparr> statusCode = 200,
                 headers = fold (\<lambda>(name, v). set_header name v) (routed_headers r) [],
                 ended = Some (End NoBody) \<rparr>,
               []))"
proof -
  have a: "serveProjectAsNowV2 md s req res d nowJson =
           (Inr (res\<lparr> headers := fold (\<lambda>(name, v). set_header name v) (routed_headers r) (headers res),
                     ended := Some (End NoBody) \<rparr>), [])" for res d
    using assms by (simp add: serveProjectAsNowV2_def Let_def setHeaders_fold res_end_def)
  show ?thesis
    by (simp add: a devServerHandler_def serve_def new_response_def)
qed

text \<open>What the router of the specification returns for the two redirecting rules.\<close>

lemma router_redirect:
  "router_match literal_regexp is_absolute_url ''/old'' ''GET'' [route_redirect] =
     \<lparr> rr_dest = ''old'', rr_status = Some 302, rr_headers = Some [(''Location'', ''/new'')],
       uri_args = None, matched_route = Some route_redirect \<rparr>"
  by (simp add: router_match_def literal_regexp_def route_redirect_def apply_rule_def
      method_allowed_def terminal_def)

lemma router_redirect_url:
  "router_match literal_regexp is_absolute_url ''/old'' ''GET'' [route_redirect_url] = redirect_to_url"
  by (simp add: router_match_def literal_regexp_def route_redirect_url_def apply_rule_def
      method_allowed_def terminal_def redirect_to_url_def)

text \<open>The amended claim C8 at the request \<open>/old\<close> and a rule that answers it with the
  status 302 and a \<open>Location\<close> header.\<close>

theorem C8_redirect_witness:
  "serveProjectAsNowV2 (project_modules config_redirect) serving (get_request ''/old'') new_response
       ''/project'' config_redirect =
     (Inr \<lparr> statusCode = 200, headers = [(''Location'', ''/new'')], ended = Some (End NoBody) \<rparr>, [])
   \<and> devServerHandler (project_modules config_redirect) serving (get_request ''/old'') =
     (serving, \<lparr> statusCode = 200, headers = [(''Location'', ''/new'')], ended = Some (End NoBody) \<rparr>, [])"
proof -
  let ?r = "\<lparr> rr_dest = ''old'', rr_status = Some 302, rr_headers = Some [(''Location'', ''/new'')],
       uri_args = None, matched_route = Some route_redirect \<rparr>"
  have h1: "devRouter (project_modules config_redirect) (url (get_request ''/old'')) (routes config_redirect) = ?r"
    using router_redirect by (simp add: project_modules_def get_request_def config_redirect_def)
  have h2: "routed_status ?r \<in> {301, 302, 303}" by (simp add: routed_status_def)
  have h3: "\<not> isURL (project_modules config_redirect) (rr_dest ?r)"
    by (simp add: project_modules_def is_absolute_url_def)
  have h4: "status serving \<noteq> busy
      \<and> getNowJson (project_modules config_redirect) (cwd serving) = Inr (Some config_redirect)"
    by (simp add: serving_def getNowJson_def project_modules_def validateNowConfig_def hasSecretEnv_def
        config_redirect_def config_ok_def)
  have h5: "routed_headers ?r = [(''Location'', ''/new'')]" by (simp add: routed_headers_def)
  have h6: "setStatusIdle serving = serving" by (simp add: setStatusIdle_def serving_def)
  from C8_redirect [OF h1 h2 h3, of serving new_response "''/project''"] h4 h5 h6
  show ?thesis by (simp add: new_response_def)
qed

text \<open>
  Claim C8 as stated fails: a routing result with the status 302 whose destination is an
  absolute URL is handed to the reverse proxy, which answers with the body of its target;
  the test for a URL comes before the test for a redirection.
\<close>

theorem C8_counterexample:
  "routed_status (devRouter modules_redirect_to_url (url (get_request ''/old'')) (routes config_ok)) = 302
   \<and> serveProjectAsNowV2 modules_redirect_to_url serving (get_request ''/old'') new_response
        ''/project'' config_ok =
      (Inr \<lparr> statusCode = 200, headers = [(''Location'', ''https://example.com/new'')],
             ended = Some (ProxyPass ''https://example.com/new'') \<rparr>, [])"
  by (simp add: serveProjectAsNowV2_def Let_def modules_redirect_to_url_def project_modules_def
      redirect_to_url_def routed_status_def routed_headers_def is_absolute_url_def
      setHeaders_def setHeader_def proxyPass_def new_response_def)

section \<open>The body of an invocation\<close>

lemma base64_alphabet_distinct: "distinct (base64_alphabet @ ''-_'')"
  by code_simp

lemma base64_alphabet_length: "length base64_alphabet = 64"
  by (simp add: base64_alphabet_def)

lemma unbase64_base64_char:
  assumes "n < 64" shows "unbase64 (base64_char n) = Some n"
proof -
  let ?xs = "base64_alphabet @ ''-_''" and ?ys = "[0..<64] @ [62, 63 :: nat]"
  have "map_of (zip ?xs ?ys) (?xs ! n) = Some (?ys ! n)"
    using assms by (intro map_of_zip_nth base64_alphabet_distinct) (simp_all add: base64_alphabet_length)
  moreover have "?xs ! n = base64_char n"
    using assms by (simp add: nth_append base64_alphabet_length base64_char_def)
  moreover have "?ys ! n = n"
    using assms by (simp add: nth_append)
  ultimately show ?thesis by (simp add: unbase64_def)
qed

lemma base64_char_not_pad:
  assumes "n < 64" shows "base64_char n \<noteq> CHR ''=''"
proof -
  have "base64_char n \<in> set base64_alphabet"
    using assms by (simp add: base64_char_def base64_alphabet_length)
  moreover have "CHR ''='' \<notin> set base64_alphabet"
    by (simp add: base64_alphabet_def)
  ultimately show ?thesis by auto
qed

lemma base64_sextets_Cons:
  "n < 64 \<Longrightarrow> base64_sextets (base64_char n # cs) = n # base64_sextets cs"
  by (simp add: base64_sextets_def base64_char_not_pad unbase64_base64_char List.map_filter_simps)

lemma base64_sextets_pad: "base64_sextets (CHR ''='' # cs) = []"
  by (simp add: base64_sextets_def List.map_filter_simps)

lemma base64_sextets_Nil: "base64_sextets [] = []"
  by (simp add: base64_sextets_def List.map_filter_simps)

lemma sextet_bounds:
  fixes x y z :: nat
  assumes "x < 256" "y < 256" "z < 256"
  shows "x div 4 < 64" "(x mod 4) * 16 + y div 16 < 64" "(y mod 16) * 4 + z div 64 < 64" "z mod 64 < 64"
    "(x mod 4) * 16 < 64" "(y mod 16) * 4 < 64"
  using assms by auto

lemma first_byte:
  fixes x y :: nat
  assumes "y < 256"
  shows "(x div 4) * 4 + ((x mod 4) * 16 + y div 16) div 16 = x"
proof -
  have "y div 16 < 16" using assms by auto
  then have "((x mod 4) * 16 + y div 16) div 16 = x mod 4" by simp
  then show ?thesis by simp
qed

lemma second_byte:
  fixes x y z :: nat
  assumes "y < 256" "z < 256"
  shows "(((x mod 4) * 16 + y div 16) mod 16) * 16 + ((y mod 16) * 4 + z div 64) div 4 = y"
proof -
  have a: "y div 16 < 16" "z div 64 < 4" using assms by auto
  have "((x mod 4) * 16 + y div 16) mod 16 = y div 16" using a by simp
  moreover have "((y mod 16) * 4 + z div 64) div 4 = y mod 16" using a by simp
  ultimately show ?thesis by simp
qed

lemma third_byte:
  fixes y z :: nat
  assumes "z < 256"
  shows "(((y mod 16) * 4 + z div 64) mod 4) * 64 + z mod 64 = z"
proof -
  have a: "z div 64 < 4" using assms by auto
  have "((y mod 16) * 4 + z div 64) mod 4 = z div 64" using a by simp
  then show ?thesis by simp
qed

lemma decode_group:
  fixes a b c :: char
  defines "x \<equiv> (of_char a :: nat)" and "y \<equiv> (of_char b :: nat)" and "z \<equiv> (of_char c :: nat)"
  shows "base64_bytes (x div 4 # ((x mod 4) * 16 + y div 16) # ((y mod 16) * 4 + z div 64) # z mod 64 # ss)
         = a # b # c # base64_bytes ss"
proof -
  have lt: "x < 256" "y < 256" "z < 256" by (simp_all add: x_def y_def z_def)
  have "char_of ((x div 4) * 4 + ((x mod 4) * 16 + y div 16) div 16) = a"
    by (simp only: first_byte [OF lt(2)]) (simp add: x_def)
  moreover have "char_of ((((x mod 4) * 16 + y div 16) mod 16) * 16 + ((y mod 16) * 4 + z div 64) div 4) = b"
    by (simp only: second_byte [OF lt(2) lt(3)]) (simp add: y_def)
  moreover have "char_of ((((y mod 16) * 4 + z div 64) mod 4) * 64 + z mod 64) = c"
    by (simp only: third_byte [OF lt(3)]) (simp add: z_def)
  ultimately show ?thesis by (simp only: base64_bytes.simps append.simps)
qed

lemma decode_pair:
  fixes a b :: char
  defines "x \<equiv> (of_char a :: nat)" and "y \<equiv> (of_char b :: nat)"
  shows "base64_bytes [x div 4, (x mod 4) * 16 + y div 16, (y mod 16) * 4] = [a, b]"
proof -
  have lt: "x < 256" "y < 256" "(0::nat) < 256" by (simp_all add: x_def y_def)
  have "char_of ((x div 4) * 4 + ((x mod 4) * 16 + y div 16) div 16) = a"
    by (simp only: first_byte [OF lt(2)]) (simp add: x_def)
  moreover have "char_of ((((x mod 4) * 16 + y div 16) mod 16) * 16 + ((y mod 16) * 4) div 4) = b"
    using second_byte [OF lt(2) lt(3), of x] by (simp add: y_def)
  ultimately show ?thesis by (simp only: base64_bytes.simps)
qed

lemma decode_single:
  fixes a :: char
  defines "x \<equiv> (of_char a :: nat)"
  shows "base64_bytes [x div 4, (x mod 4) * 16] = [a]"
proof -
  have "char_of ((x div 4) * 4 + ((x mod 4) * 16) div 16) = a"
    using first_byte [of 0 x] by (simp add: x_def)
  then show ?thesis by (simp only: base64_bytes.simps)
qed

text \<open>Decoding what was encoded gives the bytes back, by the recursion of the encoder:
  three bytes at a time, and a rest of two, one or none.\<close>

lemma base64_roundtrip: "base64_decode (base64_encode bs) = bs"
proof (induction bs rule: base64_encode.induct)
  case (1 a b c rest)
  have lt: "(of_char a :: nat) < 256" "(of_char b :: nat) < 256" "(of_char c :: nat) < 256" by simp_all
  show ?case
    using 1 sextet_bounds [OF lt] decode_group [of a b c]
    by (simp add: base64_decode_def Let_def base64_sextets_Cons)
next
  case (2 a b)
  have lt: "(of_char a :: nat) < 256" "(of_char b :: nat) < 256" by simp_all
  show ?case
    using sextet_bounds [OF lt lt(1)] decode_pair [of a b]
    by (simp add: base64_decode_def Let_def base64_sextets_Cons base64_sextets_pad)
next
  case (3 a)
  have lt: "(of_char a :: nat) < 256" by simp
  show ?case
    using sextet_bounds [OF lt lt lt] decode_single [of a]
    by (simp add: base64_decode_def Let_def base64_sextets_Cons base64_sextets_pad)
next
  case 4
  show ?case by (simp add: base64_decode_def base64_sextets_Nil)
qed

text \<open>The example of the specification, and the encoding of \<open>hello\<close>.\<close>

lemma sample_decodes: \<open>base64_decode ''eyJlaXlvIjp0cnVlfQ=='' = ''{"eiyo":true}''\<close>
  by code_simp

lemma hello_encodes: "base64_encode ''hello'' = ''aGVsbG8=''"
  by code_simp

text \<open>When the request reaches a built function, \<open>serveProjectAsNowV2\<close> invokes it with
  the payload of the request and writes the body of the result.\<close>

lemma serve_lambda:
  assumes "devRouter md (url req) (routes nowJson) = r" and "\<not> isURL md (rr_dest r)"
    and "routed_status r \<notin> {301, 302, 303}" and "builds nowJson \<noteq> None"
    and "resolveDest (assets s) (rr_dest r) = Some asset"
    and "type asset = Some ''Lambda''" and "fn asset = Some f"
    and "invoke md f (payload req) = Inr result"
  shows "serveProjectAsNowV2 md s req res dir nowJson =
           (Inr (res_end (resBody result)
                   (setHeaders (ir_headers result)
                      ((setHeaders (routed_headers r) res)\<lparr> statusCode := ir_statusCode result \<rparr>))),
            [Resolve (rr_dest r), Invoke f (payload req)])"
  using assms by (simp add: serveProjectAsNowV2_def Let_def)

text \<open>A body that is not a string is written as it is, whatever encoding the result
  declares: the decoding is guarded by \<open>typeof result.body === 'string'\<close>.\<close>

lemma resBody_not_string:
  "resBody \<lparr> ir_statusCode = n, ir_headers = hs, ir_body = Bytes bs, ir_encoding = Some ''base64'' \<rparr>
     = Bytes bs"
  by (simp add: resBody_def)

text \<open>
  Claim C6, as amended. In the second server the payload of every request is tagged
  \<open>base64\<close> and carries the base64 encoding of the request body, whatever the headers say,
  so decoding the payload's body gives the request body back; decoding after encoding is the
  identity on all bytes. It is this payload that a built function is invoked with, and the
  body of its result is what the response is ended with: decoded, when the result declares
  the encoding \<open>base64\<close> and its body is a string. A result that carries the encoding of
  \<open>bs\<close> is written as the bytes \<open>bs\<close>.
\<close>

theorem C6_body_roundtrip:
  "ip_encoding (payload req) = ''base64''
   \<and> ip_body (payload req) = base64_encode (req_body req)
   \<and> base64_decode (ip_body (payload req)) = req_body req
   \<and> base64_decode (base64_encode bs) = bs
   \<and> (devRouter md (url req) (routes nowJson) = r \<and> \<not> isURL md (rr_dest r)
        \<and> routed_status r \<notin> {301, 302, 303} \<and> builds nowJson \<noteq> None
        \<and> resolveDest (assets s) (rr_dest r) = Some asset
        \<and> type asset = Some ''Lambda'' \<and> fn asset = Some f
        \<and> invoke md f (payload req) = Inr result
      \<longrightarrow> serveProjectAsNowV2 md s req res dir nowJson =
           (Inr (res_end (resBody result)
                   (setHeaders (ir_headers result)
                      ((setHeaders (routed_headers r) res)\<lparr> statusCode := ir_statusCode result \<rparr>))),
            [Resolve (rr_dest r), Invoke f (payload req)]))
   \<and> (ir_encoding result = Some ''base64'' \<and> ir_body result = Text b \<longrightarrow>
        resBody result = Bytes (base64_decode b))
   \<and> (ir_encoding result = Some ''base64'' \<and> ir_body result = Text (base64_encode bs) \<longrightarrow>
        resBody result = Bytes bs)"
proof -
  have a: "ip_encoding (payload req) = ''base64''" "ip_body (payload req) = base64_encode (req_body req)"
    by (simp_all add: payload_def)
  have b: "base64_decode (ip_body (payload req)) = req_body req"
    by (simp add: a base64_roundtrip)
  have c: "ir_encoding result = Some ''base64'' \<and> ir_body result = Text b \<longrightarrow>
        resBody result = Bytes (base64_decode b)" for b
    by (simp add: resBody_def)
  have d: "ir_encoding result = Some ''base64'' \<and> ir_body result = Text (base64_encode bs) \<longrightarrow>
        resBody result = Bytes bs"
    using c [of "base64_encode bs"] by (simp add: base64_roundtrip)
  have e: "devRouter md (url req) (routes nowJson) = r \<and> \<not> isURL md (rr_dest r)
        \<and> routed_status r \<notin> {301, 302, 303} \<and> builds nowJson \<noteq> None
        \<and> resolveDest (assets s) (rr_dest r) = Some asset
        \<and> type asset = Some ''Lambda'' \<and> fn asset = Some f
        \<and> invoke md f (payload req) = Inr result
      \<longrightarrow> serveProjectAsNowV2 md s req res dir nowJson =
           (Inr (res_end (resBody result)
                   (setHeaders (ir_headers result)
                      ((setHeaders (routed_headers r) res)\<lparr> statusCode := ir_statusCode result \<rparr>))),
            [Resolve (rr_dest r), Invoke f (payload req)])"
    using serve_lambda [of md req nowJson r s asset f result res dir] by (intro impI) simp
  show ?thesis by (intro conjI a b c d e base64_roundtrip)
qed


text \<open>The amended claim C6 at a \<open>POST\<close> of \<open>hello\<close> to a function that answers with the
  body it was sent.\<close>

theorem C6_body_roundtrip_witness:
  "serveProjectAsNowV2 (project_modules config_ok) serving (post_request ''/api/'' ''hello'')
       new_response ''/project'' config_ok =
     (Inr \<lparr> statusCode = 200, headers = [(''x-echo'', ''1'')], ended = Some (End (Bytes ''hello'')) \<rparr>,
      [Resolve ''api/'', Invoke 1 (payload (post_request ''/api/'' ''hello''))])
   \<and> ip_encoding (payload (post_request ''/api/'' ''hello'')) = ''base64''
   \<and> ip_body (payload (post_request ''/api/'' ''hello'')) = ''aGVsbG8=''"
proof -
  let ?md = "project_modules config_ok" and ?req = "post_request ''/api/'' ''hello''"
  let ?r = "\<lparr> rr_dest = ''api/'', rr_status = Some 200, rr_headers = Some [],
       uri_args = None, matched_route = None \<rparr>"
  let ?result = "\<lparr> ir_statusCode = 200, ir_headers = [(''x-echo'', ''1'')],
                   ir_body = Text (base64_encode ''hello''), ir_encoding = Some ''base64'' \<rparr>"
  have p: "ip_body (payload ?req) = base64_encode ''hello''" "ip_encoding (payload ?req) = ''base64''"
    by (simp_all add: payload_def post_request_def del: base64_encode.simps)
  have u: "url ?req = Some ''/api/''" by (simp add: post_request_def)
  have h: "devRouter ?md (url ?req) (routes config_ok) = ?r \<and> \<not> isURL ?md (rr_dest ?r)
        \<and> routed_status ?r \<notin> {301, 302, 303} \<and> builds config_ok \<noteq> None
        \<and> resolveDest (assets serving) (rr_dest ?r) = Some (lambda_output 1)
        \<and> type (lambda_output 1) = Some ''Lambda'' \<and> fn (lambda_output 1) = Some 1
        \<and> invoke ?md 1 (payload ?req) = Inr ?result"
    by (simp add: project_modules_def u config_ok_def router_no_routes
        is_absolute_url_def routed_status_def serving_def resolveDest_def property_def
        inherited_def strip_trailing_slash_def
        index_here_def index_tail_def is_word_char_def lambda_output_def empty_output_def
        echo_def p del: base64_encode.simps)
  have e: "ir_encoding ?result = Some ''base64'' \<and> ir_body ?result = Text (base64_encode ''hello'')"
    by (simp del: base64_encode.simps)
  note t = C6_body_roundtrip [of ?req "''hello''" ?md config_ok ?r serving "lambda_output 1" 1 ?result
      new_response "''/project''"]
  from t h have s: "serveProjectAsNowV2 ?md serving ?req new_response ''/project'' config_ok =
           (Inr (res_end (resBody ?result)
                   (setHeaders (ir_headers ?result)
                      ((setHeaders (routed_headers ?r) new_response)\<lparr> statusCode := ir_statusCode ?result \<rparr>))),
            [Resolve (rr_dest ?r), Invoke 1 (payload ?req)])"
    by blast
  from t e have b: "resBody ?result = Bytes ''hello''" by blast
  show ?thesis
    unfolding s b
    by (simp add: p hello_encodes routed_headers_def setHeaders_def setHeader_def res_end_def
        new_response_def del: base64_encode.simps)
qed

lemma decimal_zero: "decimal 0 = ''0''"
  by code_simp

text \<open>
  Claim C6 as stated fails in the first server: for a \<open>POST\<close> of \<open>hello\<close> that is routed to a
  function, \<open>serveBuilds\<close> invokes the function with the fixed body \<open>eyJlaXlvIjp0cnVlfQ==\<close>,
  which is not the encoding of \<open>hello\<close>; it writes nothing of the result to the response,
  which the handler then ends with the status 500 and an empty body.
\<close>

theorem C6_counterexample:
  "devServerHandler_v1 platform_configured cache_lambda idle_v1 (post_request ''/api/a.js'' ''hello'') =
     (idle_v1,
      \<lparr> statusCode = 500, headers = [(''Content-Length'', ''0'')], ended = Some (End (Text [])) \<rparr>,
      [Install ''/cache'' ''@now/node'', Install ''/cache'' ''@now/build-utils'',
       Build ''@now/node'' ''api/a.js'', CreateFunction lambda_source,
       Invoke 0 \<lparr> ip_method = Some ''POST'', ip_path = Some ''/api/a.js'',
                  ip_headers = [(''content-type'', ''text/plain'')],
                  ip_encoding = ''base64'', ip_body = ''eyJlaXlvIjp0cnVlfQ=='' \<rparr>])
   \<and> base64_encode ''hello'' = ''aGVsbG8=''"
  by (simp add: hello_encodes devServerHandler_v1_def handle_v1_def serveBuilds_def
      buildUserProject_v1_def installBuilders_def builders_def buildLambdas_def build_rule_def
      platform_configured_def project_platform_def project_files_def cache_lambda_def
      idle_v1_def building_v1_def post_request_def config_ok_def rule_node_a_def
      setStatusBusy_def setStatusIdle_def spread_def route_def reqDest_def matchHandler_def
      property_def inherited_def
      lambda_source_def empty_output_def payload_v1_def finished_def new_response_def
      setHeader_def res_end_def decimal_zero Let_def del: base64_encode.simps)


end
